theory Spec2Isabelle
  imports Main
begin

section \<open>Manifests and the version-range library\<close>

text \<open>
  The tool exists in two variants: \<^verbatim>\<open>src/index.js\<close> (one positional argument, the
  application is the working directory) and \<^verbatim>\<open>src/unnamed/part_000\<close> (two positional
  arguments). Functions that are literally the same in both files are modelled once;
  the two \<^verbatim>\<open>main\<close> functions are modelled separately further down.

  A manifest is the parsed \<^verbatim>\<open>package.json\<close>. A dependency section that is not present
  reads as \<^verbatim>\<open>undefined\<close> in the source and is \<open>None\<close> here; a present section
  is the map of its own properties, from package names to strings. What such an object
  inherits from \<^verbatim>\<open>Object.prototype\<close> is modelled where the source reads a property
  or uses \<^verbatim>\<open>in\<close> (see \<open>js_get\<close> and \<open>js_in\<close>). \<^verbatim>\<open>peerDependencies\<close> is kept as
  the list that \<^verbatim>\<open>Object.entries\<close> returns, because the source iterates over it in
  that order.
\<close>

type_synonym deps = "string \<rightharpoonup> string"

record manifest =
  pkg_name :: "string option"
  dependencies :: "deps option"
  devDependencies :: "deps option"
  optionalDependencies :: "deps option"
  peerDependencies :: "(string \<times> string) list option"

text \<open>
  The \<^verbatim>\<open>semver\<close> package is an external collaborator, so its three functions are
  parameters of the model. \<^verbatim>\<open>semver.valid\<close> and \<^verbatim>\<open>semver.validRange\<close> return a
  non-empty string or \<^verbatim>\<open>null\<close>, and the source only tests the result for truthiness.
\<close>

record semver =
  semver_valid :: "string \<Rightarrow> bool"
  semver_validRange :: "string \<Rightarrow> bool"
  semver_intersects :: "string \<Rightarrow> string \<Rightarrow> bool"

subsection \<open>JavaScript values read from a dependency section\<close>

text \<open>
  The manifests come from \<^verbatim>\<open>JSON.parse\<close>, so every dependency section is an ordinary
  object whose prototype is \<^verbatim>\<open>Object.prototype\<close>. Reading \<^verbatim>\<open>obj[name]\<close> gives the
  own property when there is one (a string), else what the object inherits under that
  name (a function, or the prototype itself for \<^verbatim>\<open>__proto__\<close>), else \<^verbatim>\<open>undefined\<close>;
  \<^verbatim>\<open>name in obj\<close> is true for own and for inherited names alike.
  \<open>Inherited\<close> stands for any inherited value: it is truthy and is not a string.
  \<open>Undefined\<close> also stands for \<^verbatim>\<open>null\<close> and \<^verbatim>\<open>false\<close>, which the source only tests for
  truthiness.
\<close>

datatype jsval = Undefined | Inherited | Str string

definition object_prototype_names :: "string list" where
  "object_prototype_names =
     [''constructor'', ''__defineGetter__'', ''__defineSetter__'', ''hasOwnProperty'',
      ''__lookupGetter__'', ''__lookupSetter__'', ''isPrototypeOf'', ''propertyIsEnumerable'',
      ''toString'', ''valueOf'', ''__proto__'', ''toLocaleString'']"

definition js_in :: "string \<Rightarrow> deps \<Rightarrow> bool" where
  "js_in k d = (k \<in> dom d \<or> k \<in> set object_prototype_names)"

definition js_get :: "deps \<Rightarrow> string \<Rightarrow> jsval" where
  "js_get d k =
     (case d k of
        Some s \<Rightarrow> Str s
      | None \<Rightarrow> if k \<in> set object_prototype_names then Inherited else Undefined)"

definition js_read :: "deps option \<Rightarrow> string \<Rightarrow> jsval" where
  "js_read obj k = (case obj of None \<Rightarrow> Undefined | Some d \<Rightarrow> js_get d k)"

definition truthy :: "jsval \<Rightarrow> bool" where
  "truthy v = (case v of Undefined \<Rightarrow> False | Inherited \<Rightarrow> True | Str s \<Rightarrow> s \<noteq> [])"

definition js_and :: "bool \<Rightarrow> jsval \<Rightarrow> jsval" where
  "js_and c v = (if c then v else Undefined)"

definition js_or :: "jsval \<Rightarrow> jsval \<Rightarrow> jsval" where
  "js_or a b = (if truthy a then a else b)"

text \<open>The declared value: the own property of a section, if the section is there.\<close>

definition get_prop :: "deps option \<Rightarrow> string \<Rightarrow> string option" where
  "get_prop obj k = (case obj of None \<Rightarrow> None | Some d \<Rightarrow> d k)"

definition startsWith :: "string \<Rightarrow> string \<Rightarrow> bool" where
  "startsWith s p = (take (length p) s = p)"

text \<open>The regular expression \<^verbatim>\<open>/-\w+/\<close>: a dash followed by at least one word character.\<close>

definition is_word_char :: "char \<Rightarrow> bool" where
  "is_word_char c =
     (let n = (of_char c :: nat)
      in (48 \<le> n \<and> n \<le> 57) \<or> (65 \<le> n \<and> n \<le> 90) \<or> (97 \<le> n \<and> n \<le> 122) \<or> n = 95)"

fun test_dash_word :: "string \<Rightarrow> bool" where
  "test_dash_word (c # d # cs) =
     ((c = CHR ''-'' \<and> is_word_char d) \<or> test_dash_word (d # cs))"
| "test_dash_word _ = False"

section \<open>The restore step of the unlink flow\<close>

text \<open>
  \<^verbatim>\<open>src/index.js\<close> lines 150-171 and \<^verbatim>\<open>src/unnamed/part_000\<close> lines 118-134:
  \<^verbatim>\<open>
    const inDeps = appPkg.dependencies && libName in appPkg.dependencies;
    const inDevDeps = appPkg.devDependencies && libName in appPkg.devDependencies;
    const originalSpec = (inDeps && appPkg.dependencies[libName])
                      || (inDevDeps && appPkg.devDependencies[libName]) || null;
    const installArgs = ['install'];
    if (inDevDeps) installArgs.push('--save-dev'); else installArgs.push('--save-prod');
    if (originalSpec && !originalSpec.startsWith('file:')) {
      installArgs.push(`${libName}@${originalSpec}`);
      const isExact = !!semver.valid(originalSpec) || /-\w+/.test(originalSpec);
      if (isExact) installArgs.push('--save-exact');
    } else {
      installArgs.push(libName);
    }
  \<close>
\<close>

definition inDeps :: "manifest \<Rightarrow> string \<Rightarrow> bool" where
  "inDeps appPkg libName =
     (case dependencies appPkg of None \<Rightarrow> False | Some d \<Rightarrow> js_in libName d)"

definition inDevDeps :: "manifest \<Rightarrow> string \<Rightarrow> bool" where
  "inDevDeps appPkg libName =
     (case devDependencies appPkg of None \<Rightarrow> False | Some d \<Rightarrow> js_in libName d)"

text \<open>The value of the constant \<^verbatim>\<open>originalSpec\<close>.\<close>

definition originalValue :: "manifest \<Rightarrow> string \<Rightarrow> jsval" where
  "originalValue appPkg libName =
     js_or
       (js_or (js_and (inDeps appPkg libName) (js_read (dependencies appPkg) libName))
              (js_and (inDevDeps appPkg libName) (js_read (devDependencies appPkg) libName)))
       Undefined"

text \<open>The same value when it is a string: the spec that can be reinstalled.\<close>

definition originalSpec :: "manifest \<Rightarrow> string \<Rightarrow> string option" where
  "originalSpec appPkg libName =
     (case originalValue appPkg libName of Str spec \<Rightarrow> Some spec | _ \<Rightarrow> None)"

datatype failure =
    NoAppPackageJson
  | NoLibPackageJson
  | ReadJsonFailed
  | NoLibraryName
  | CommandFailed "string list"
  | TypeError

text \<open>
  Building the arguments. When \<^verbatim>\<open>originalSpec\<close> is truthy and is not a string,
  \<^verbatim>\<open>originalSpec.startsWith\<close> is \<^verbatim>\<open>undefined\<close> and calling it throws a \<^verbatim>\<open>TypeError\<close>:
  the \<open>Inl\<close> below.
\<close>

definition installArgs_try :: "semver \<Rightarrow> manifest \<Rightarrow> string \<Rightarrow> failure + string list" where
  "installArgs_try sv appPkg libName =
     (let a0 = [''install''];
          a1 = (if inDevDeps appPkg libName then a0 @ [''--save-dev'']
                else a0 @ [''--save-prod''])
      in case originalValue appPkg libName of
           Undefined \<Rightarrow> Inr (a1 @ [libName])
         | Inherited \<Rightarrow> Inl TypeError
         | Str spec \<Rightarrow>
             if spec \<noteq> [] \<and> \<not> startsWith spec ''file:'' then
               (let a2 = a1 @ [libName @ ''@'' @ spec];
                    isExact = (semver_valid sv spec \<or> test_dash_word spec)
                in if isExact then Inr (a2 @ [''--save-exact'']) else Inr a2)
             else Inr (a1 @ [libName]))"

text \<open>The array \<^verbatim>\<open>installArgs\<close> that is handed to the package manager, when one is.\<close>

definition installArgs :: "semver \<Rightarrow> manifest \<Rightarrow> string \<Rightarrow> string list" where
  "installArgs sv appPkg libName =
     (case installArgs_try sv appPkg libName of Inl f \<Rightarrow> [] | Inr args \<Rightarrow> args)"

section \<open>The peer-dependency check\<close>

text \<open>
  \<^verbatim>\<open>warnPeerDeps\<close> (\<^verbatim>\<open>src/index.js\<close> lines 74-100, \<^verbatim>\<open>src/unnamed/part_000\<close> lines
  54-80). The object spread \<^verbatim>\<open>{...a, ...b, ...c}\<close> copies the own properties of
  \<^verbatim>\<open>a\<close>, then of \<^verbatim>\<open>b\<close>, then of \<^verbatim>\<open>c\<close>, a later copy overwriting an earlier one; a
  spread of \<^verbatim>\<open>undefined\<close> copies nothing.
\<close>

definition spread :: "deps option \<Rightarrow> deps" where
  "spread obj = (case obj of None \<Rightarrow> Map.empty | Some d \<Rightarrow> d)"

definition appDeps :: "manifest \<Rightarrow> deps" where
  "appDeps appPkg =
     spread (dependencies appPkg) ++ spread (devDependencies appPkg)
       ++ spread (optionalDependencies appPkg)"

definition missing_line :: "string \<times> string \<Rightarrow> string" where
  "missing_line e = fst e @ ''@'' @ snd e"

definition outOfRange_line :: "string \<Rightarrow> string \<times> string \<Rightarrow> string" where
  "outOfRange_line installed e =
     fst e @ '' (app has '' @ installed @ '', lib expects '' @ snd e @ '')''"

text \<open>
  The loop over the entries; the accumulator is the pair of the two arrays. The value
  read from the merged object can be an inherited one: it is truthy, so the entry is not
  missing, and \<^verbatim>\<open>semver.validRange\<close>, which catches what its parser throws on a value
  that is not a string and answers \<^verbatim>\<open>null\<close>, sends the entry to the silent branch.
\<close>

fun peer_loop ::
  "semver \<Rightarrow> deps \<Rightarrow> (string \<times> string) list \<Rightarrow> string list \<times> string list
     \<Rightarrow> string list \<times> string list" where
  "peer_loop sv ad [] acc = acc"
| "peer_loop sv ad ((name, rng) # rest) (missing, outOfRange) =
     (case js_get ad name of
        Undefined \<Rightarrow> peer_loop sv ad rest (missing @ [missing_line (name, rng)], outOfRange)
      | Inherited \<Rightarrow> peer_loop sv ad rest (missing, outOfRange)
      | Str installed \<Rightarrow>
          if installed = [] then
            peer_loop sv ad rest (missing @ [missing_line (name, rng)], outOfRange)
          else if semver_validRange sv rng \<and> semver_validRange sv installed then
            (if \<not> semver_intersects sv rng installed then
               peer_loop sv ad rest
                 (missing, outOfRange @ [outOfRange_line installed (name, rng)])
             else peer_loop sv ad rest (missing, outOfRange))
          else peer_loop sv ad rest (missing, outOfRange))"

datatype warning = MissingPeers "string list" | VersionMismatch "string list"

definition warnPeerDeps :: "semver \<Rightarrow> manifest \<Rightarrow> manifest \<Rightarrow> warning list" where
  "warnPeerDeps sv appPkg libPkg =
     (case peerDependencies libPkg of
        None \<Rightarrow> []
      | Some peers \<Rightarrow>
          (let (missing, outOfRange) = peer_loop sv (appDeps appPkg) peers ([], [])
           in (if missing \<noteq> [] then [MissingPeers missing] else [])
              @ (if outOfRange \<noteq> [] then [VersionMismatch outOfRange] else [])))"

section \<open>The environment: file system, path module and package manager\<close>

text \<open>
  Everything the script reaches through \<^verbatim>\<open>node:fs\<close>, \<^verbatim>\<open>node:path\<close>,
  \<^verbatim>\<open>node:child_process\<close> and \<^verbatim>\<open>semver\<close> is a field of the record \<open>sys\<close>, over an
  arbitrary type \<open>'w\<close> of states of the world (the file system and whatever else the
  package manager reads and changes). A call that can throw returns an option, \<open>None\<close>
  for the exception; a call that changes the world returns the new world.
  \<^item> \<open>lstatSync\<close> returns \<open>Some b\<close> where \<open>b\<close> is \<^verbatim>\<open>st.isSymbolicLink()\<close>;
  \<^item> \<open>rmSync\<close> is \<^verbatim>\<open>fs.rmSync(p, { recursive: true, force: true })\<close>, \<open>False\<close> when it throws;
  \<^item> \<open>spawnSync\<close> is \<^verbatim>\<open>spawnSync(npmExe, args, { stdio: 'inherit', cwd })\<close>, \<open>True\<close> when
    \<^verbatim>\<open>res.status === 0\<close>;
  \<^item> \<open>config_get_prefix\<close> is \<^verbatim>\<open>runCapture(npmExe, ['config', 'get', 'prefix'])\<close>, the
    trimmed output, \<open>None\<close> when the status is not 0.
\<close>

type_synonym path = string

record 'w sys =
  cwd :: path
  path_join :: "path list \<Rightarrow> path"
  path_resolve :: "path \<Rightarrow> path \<Rightarrow> path"
  path_dirname :: "path \<Rightarrow> path"
  existsSync :: "'w \<Rightarrow> path \<Rightarrow> bool"
  readJson :: "'w \<Rightarrow> path \<Rightarrow> manifest option"
  lstatSync :: "'w \<Rightarrow> path \<Rightarrow> bool option"
  readlinkSync :: "'w \<Rightarrow> path \<Rightarrow> path option"
  realpathSync :: "'w \<Rightarrow> path \<Rightarrow> path option"
  rmSync :: "path \<Rightarrow> 'w \<Rightarrow> bool \<times> 'w"
  spawnSync :: "string list \<Rightarrow> path option \<Rightarrow> 'w \<Rightarrow> bool \<times> 'w"
  config_get_prefix :: "'w \<Rightarrow> string option"
  semver_lib :: semver

subsection \<open>What a run leaves behind\<close>

datatype global_status = GlobalLinked | GlobalElsewhere | GlobalAbsent

datatype app_status = AppLinked | AppInstalled | AppAbsent

text \<open>
  One constructor for each message of the two files. The status line of
  \<^verbatim>\<open>src/unnamed/part_000\<close> has no global part: \<open>Status None a\<close>.
\<close>

datatype message =
    Usage
  | Unlinking
  | AppUnlinkFailed
  | Reinstalling
  | Restored
  | RemovingGlobal
  | GlobalUnlinkFailed
  | CleanupFailed
  | GlobalRemoved
  | Status "global_status option" app_status
  | CreatingGlobal
  | GlobalReady
  | GlobalAlreadySet
  | GlobalLinkError
  | AppAlreadyLinked
  | RemovingInstall
  | LinkingApp
  | FirstAttemptFailed
  | Verified
  | VerificationFailed
  | Peers warning
  | StartingWatcher

datatype event =
    Log message
  | Warn message
  | Error failure
  | Run "string list" "path option" bool
  | Rm path bool
  | Spawn "string list" path

type_synonym 'w st = "'w \<times> event list"

record 'w outcome =
  exit_code :: nat
  events :: "event list"
  world :: 'w

definition emit :: "event \<Rightarrow> 'w st \<Rightarrow> 'w st" where
  "emit e s = (fst s, snd s @ [e])"

text \<open>
  \<^verbatim>\<open>run(cmd, args, opts)\<close>: the command runs to completion; the function throws when
  the status is not 0, which is the \<open>False\<close> returned here.
\<close>

definition run :: "'w sys \<Rightarrow> string list \<Rightarrow> path option \<Rightarrow> 'w st \<Rightarrow> bool \<times> 'w st" where
  "run sys args dir s =
     (case spawnSync sys args dir (fst s) of
        (ok, w') \<Rightarrow> (ok, (w', snd s @ [Run args dir ok])))"

definition rm :: "'w sys \<Rightarrow> path \<Rightarrow> 'w st \<Rightarrow> bool \<times> 'w st" where
  "rm sys p s =
     (case rmSync sys p (fst s) of
        (ok, w') \<Rightarrow> (ok, (w', snd s @ [Rm p ok])))"

subsection \<open>The link-state detector\<close>

text \<open>
  \<^verbatim>\<open>
  function realEquals(aPath, bPath) {
    try { const a = fs.realpathSync(aPath); const b = fs.realpathSync(bPath); return a === b; }
    catch { return false; }
  }
  function isSymlinkTo(linkPath, expectedTargetAbs) {
    try {
      const st = fs.lstatSync(linkPath);
      if (!st.isSymbolicLink()) return false;
      const link = fs.readlinkSync(linkPath);
      const resolved = path.resolve(path.dirname(linkPath), link);
      return realEquals(resolved, expectedTargetAbs);
    } catch { return false; }
  }
  \<close>
  The body of each \<^verbatim>\<open>try\<close> is a function into a sum, \<open>Inl\<close> for an exception; the
  function itself is the body under its \<^verbatim>\<open>catch\<close>.
\<close>

datatype thrown = Thrown

definition realEquals_try :: "'w sys \<Rightarrow> 'w \<Rightarrow> path \<Rightarrow> path \<Rightarrow> thrown + bool" where
  "realEquals_try sys w aPath bPath =
     (case realpathSync sys w aPath of
        None \<Rightarrow> Inl Thrown
      | Some a \<Rightarrow>
          (case realpathSync sys w bPath of
             None \<Rightarrow> Inl Thrown
           | Some b \<Rightarrow> Inr (a = b)))"

definition realEquals :: "'w sys \<Rightarrow> 'w \<Rightarrow> path \<Rightarrow> path \<Rightarrow> bool" where
  "realEquals sys w aPath bPath =
     (case realEquals_try sys w aPath bPath of Inl _ \<Rightarrow> False | Inr r \<Rightarrow> r)"

definition isSymlinkTo_try :: "'w sys \<Rightarrow> 'w \<Rightarrow> path \<Rightarrow> path \<Rightarrow> thrown + bool" where
  "isSymlinkTo_try sys w linkPath expectedTargetAbs =
     (case lstatSync sys w linkPath of
        None \<Rightarrow> Inl Thrown
      | Some isSymbolicLink \<Rightarrow>
          if \<not> isSymbolicLink then Inr False
          else
            (case readlinkSync sys w linkPath of
               None \<Rightarrow> Inl Thrown
             | Some link \<Rightarrow>
                 (let resolved = path_resolve sys (path_dirname sys linkPath) link
                  in Inr (realEquals sys w resolved expectedTargetAbs))))"

definition isSymlinkTo :: "'w sys \<Rightarrow> 'w \<Rightarrow> path \<Rightarrow> path \<Rightarrow> bool" where
  "isSymlinkTo sys w linkPath expectedTargetAbs =
     (case isSymlinkTo_try sys w linkPath expectedTargetAbs of Inl _ \<Rightarrow> False | Inr r \<Rightarrow> r)"

definition npmRootGlobal :: "'w sys \<Rightarrow> 'w \<Rightarrow> path option" where
  "npmRootGlobal sys w =
     (case config_get_prefix sys w of
        None \<Rightarrow> None
      | Some prefix \<Rightarrow> Some (path_join sys [prefix, ''node_modules'']))"

section \<open>The unlink flow\<close>

text \<open>
  \<^verbatim>\<open>src/index.js\<close> lines 143-176 and \<^verbatim>\<open>src/unnamed/part_000\<close> lines 114-138, the same
  in both files: unlink in the application (a failure is caught and logged), build the
  arguments (a \<^verbatim>\<open>TypeError\<close> there is not caught), then reinstall (a failure is thrown).
\<close>

definition restore_app ::
  "'w sys \<Rightarrow> path \<Rightarrow> manifest \<Rightarrow> string \<Rightarrow> 'w st \<Rightarrow> failure option \<times> 'w st" where
  "restore_app sys appDir appPkg libName s0 =
     (case run sys [''unlink'', libName] (Some appDir) (emit (Log Unlinking) s0) of
        (ok1, s1) \<Rightarrow>
          (let s2 = (if ok1 then s1 else emit (Warn AppUnlinkFailed) s1)
           in case installArgs_try (semver_lib sys) appPkg libName of
                Inl f \<Rightarrow> (Some f, s2)
              | Inr args \<Rightarrow>
                  (case run sys args (Some appDir) (emit (Log Reinstalling) s2) of
                     (ok2, s3) \<Rightarrow>
                       if ok2 then (None, emit (Log Restored) s3)
                       else (Some (CommandFailed args), s3))))"

text \<open>
  \<^verbatim>\<open>src/index.js\<close> lines 178-191:
  \<^verbatim>\<open>
    if (doUnlinkGlobal) {
      try { run(npmExe, ['unlink', '-g', libName], { cwd: appDir }); }
      catch (e) { console.warn(...); }
      try { if (fs.existsSync(globalLinkPath))
              fs.rmSync(globalLinkPath, { recursive: true, force: true }); }
      catch (e) { console.warn(`(cleanup failed): ...`); }
      console.log('Global link removed.');
    }
  \<close>
\<close>

definition remove_global_index :: "'w sys \<Rightarrow> path \<Rightarrow> string \<Rightarrow> path \<Rightarrow> 'w st \<Rightarrow> 'w st" where
  "remove_global_index sys appDir libName globalLinkPath s0 =
     (case run sys [''unlink'', ''-g'', libName] (Some appDir) (emit (Log RemovingGlobal) s0) of
        (ok1, s1) \<Rightarrow>
          (let s2 = (if ok1 then s1 else emit (Warn GlobalUnlinkFailed) s1);
               s3 = (if existsSync sys (fst s2) globalLinkPath then
                       (case rm sys globalLinkPath s2 of
                          (ok2, s') \<Rightarrow> if ok2 then s' else emit (Warn CleanupFailed) s')
                     else s2)
           in emit (Log GlobalRemoved) s3))"

text \<open>
  \<^verbatim>\<open>src/unnamed/part_000\<close> lines 140-145:
  \<^verbatim>\<open>
    if (doUnlinkGlobal) {
      try { run(npmExe, ['unlink', '-g', libName]); }
      catch (e) { console.warn(...); }
      console.log('Global link removed.');
    }
  \<close>
\<close>

definition remove_global_part000 :: "'w sys \<Rightarrow> string \<Rightarrow> 'w st \<Rightarrow> 'w st" where
  "remove_global_part000 sys libName s0 =
     (case run sys [''unlink'', ''-g'', libName] None (emit (Log RemovingGlobal) s0) of
        (ok1, s1) \<Rightarrow>
          (let s2 = (if ok1 then s1 else emit (Warn GlobalUnlinkFailed) s1)
           in emit (Log GlobalRemoved) s2))"

definition unlink_flow_index ::
  "'w sys \<Rightarrow> path \<Rightarrow> manifest \<Rightarrow> string \<Rightarrow> path \<Rightarrow> bool \<Rightarrow> 'w st
     \<Rightarrow> failure option \<times> 'w st" where
  "unlink_flow_index sys appDir appPkg libName globalLinkPath doUnlinkGlobal s0 =
     (case restore_app sys appDir appPkg libName s0 of
        (Some f, s1) \<Rightarrow> (Some f, s1)
      | (None, s1) \<Rightarrow>
          (None, if doUnlinkGlobal then remove_global_index sys appDir libName globalLinkPath s1
                 else s1))"

definition unlink_flow_part000 ::
  "'w sys \<Rightarrow> path \<Rightarrow> manifest \<Rightarrow> string \<Rightarrow> bool \<Rightarrow> 'w st \<Rightarrow> failure option \<times> 'w st" where
  "unlink_flow_part000 sys appDir appPkg libName doUnlinkGlobal s0 =
     (case restore_app sys appDir appPkg libName s0 of
        (Some f, s1) \<Rightarrow> (Some f, s1)
      | (None, s1) \<Rightarrow>
          (None, if doUnlinkGlobal then remove_global_part000 sys libName s1 else s1))"

section \<open>The link flow\<close>

text \<open>
  Ensuring the global link. \<^verbatim>\<open>src/index.js\<close> lines 205-212 run the command only when
  the detector did not find the global link, and do not catch its failure:
  \<^verbatim>\<open>
    if (!globalIsLinkedToLib) {
      run(npmExe, ['link'], { cwd: libDir });
      console.log('Global link ready.');
    } else { console.log('Global link already set - skipping.'); }
  \<close>
  \<^verbatim>\<open>src/unnamed/part_000\<close> lines 157-164 run it always, inside a \<^verbatim>\<open>try\<close>:
  \<^verbatim>\<open>
    try { run(npmExe, ['link'], { cwd: libDir }); console.log('Global link ready (or already existed).'); }
    catch (e) { console.warn(`"npm link" in library reported an error (continuing): ...`); }
  \<close>
\<close>

definition ensure_global_index ::
  "'w sys \<Rightarrow> path \<Rightarrow> bool \<Rightarrow> 'w st \<Rightarrow> failure option \<times> 'w st" where
  "ensure_global_index sys libDir globalIsLinkedToLib s0 =
     (if \<not> globalIsLinkedToLib then
        (case run sys [''link''] (Some libDir) (emit (Log CreatingGlobal) s0) of
           (ok, s1) \<Rightarrow>
             if ok then (None, emit (Log GlobalReady) s1)
             else (Some (CommandFailed [''link'']), s1))
      else (None, emit (Log GlobalAlreadySet) s0))"

definition ensure_global_part000 :: "'w sys \<Rightarrow> path \<Rightarrow> 'w st \<Rightarrow> 'w st" where
  "ensure_global_part000 sys libDir s0 =
     (case run sys [''link''] (Some libDir) (emit (Log CreatingGlobal) s0) of
        (ok, s1) \<Rightarrow>
          if ok then emit (Log GlobalReady) s1 else emit (Warn GlobalLinkError) s1)"

text \<open>
  Linking into the application, \<^verbatim>\<open>src/index.js\<close> lines 227-238:
  \<^verbatim>\<open>
    try { run(npmExe, ['link', libName], { cwd: appDir }); }
    catch (e1) {
      console.warn(`First link attempt failed. ...`);
      try { run(npmExe, ['unlink', libName], { cwd: appDir }); }
      catch (e) { console.warn(`(npm unlink ${libName} in app): ${e.message}`); }
      run(npmExe, ['link', libName], { cwd: appDir });
    }
  \<close>
  \<^verbatim>\<open>src/unnamed/part_000\<close> lines 176-183 differ only in the inner handler, which is
  empty (\<^verbatim>\<open>catch {}\<close>); \<open>warnUnlink\<close> is \<open>True\<close> for the first file and \<open>False\<close> for
  the second.
\<close>

definition link_into_app ::
  "'w sys \<Rightarrow> bool \<Rightarrow> path \<Rightarrow> string \<Rightarrow> 'w st \<Rightarrow> failure option \<times> 'w st" where
  "link_into_app sys warnUnlink appDir libName s0 =
     (case run sys [''link'', libName] (Some appDir) (emit (Log LinkingApp) s0) of
        (ok1, s1) \<Rightarrow>
          if ok1 then (None, s1)
          else
            (case run sys [''unlink'', libName] (Some appDir)
                    (emit (Warn FirstAttemptFailed) s1) of
               (ok2, s2) \<Rightarrow>
                 (let s3 = (if \<not> ok2 \<and> warnUnlink then emit (Warn AppUnlinkFailed) s2
                            else s2)
                  in case run sys [''link'', libName] (Some appDir) s3 of
                       (ok3, s4) \<Rightarrow>
                         if ok3 then (None, s4)
                         else (Some (CommandFailed [''link'', libName]), s4))))"

text \<open>\<^verbatim>\<open>src/index.js\<close> lines 215-246, \<^verbatim>\<open>src/unnamed/part_000\<close> lines 167-191.\<close>

definition ensure_app_link ::
  "'w sys \<Rightarrow> bool \<Rightarrow> path \<Rightarrow> path \<Rightarrow> string \<Rightarrow> path \<Rightarrow> bool \<Rightarrow> bool \<Rightarrow> 'w st
     \<Rightarrow> failure option \<times> 'w st" where
  "ensure_app_link sys warnUnlink appDir libDir libName appNodeModulesLib
       appIsLinkedToLib appHasInstalledFolder s0 =
     (if appIsLinkedToLib then (None, emit (Log AppAlreadyLinked) s0)
      else
        (let s1 = (if appHasInstalledFolder then
                     (case rm sys appNodeModulesLib (emit (Log RemovingInstall) s0) of
                        (ok, s') \<Rightarrow> if ok then s' else emit (Warn CleanupFailed) s')
                   else s0)
         in case link_into_app sys warnUnlink appDir libName s1 of
              (Some f, s2) \<Rightarrow> (Some f, s2)
            | (None, s2) \<Rightarrow>
                (None,
                 if isSymlinkTo sys (fst s2) appNodeModulesLib libDir then emit (Log Verified) s2
                 else emit (Warn VerificationFailed) s2)))"

text \<open>
  The end of the link flow (\<^verbatim>\<open>src/index.js\<close> lines 248-258, \<^verbatim>\<open>src/unnamed/part_000\<close>
  lines 194-203): the peer-dependency warnings, then the watcher. The watcher is spawned
  and not awaited; what it prints when it exits is not part of the run modelled here.
\<close>

definition warn_and_watch ::
  "'w sys \<Rightarrow> manifest \<Rightarrow> manifest \<Rightarrow> path \<Rightarrow> bool \<Rightarrow> 'w st \<Rightarrow> 'w st" where
  "warn_and_watch sys appPkg libPkg libDir doWatch s0 =
     (let s1 = (fst s0, snd s0 @ map (\<lambda>w. Warn (Peers w)) (warnPeerDeps (semver_lib sys) appPkg libPkg))
      in if doWatch then
           emit (Spawn [''run'', ''build'', ''--'', ''--watch''] libDir)
             (emit (Log StartingWatcher) s1)
         else s1)"

definition link_flow_index ::
  "'w sys \<Rightarrow> path \<Rightarrow> path \<Rightarrow> manifest \<Rightarrow> manifest \<Rightarrow> string \<Rightarrow> path \<Rightarrow> path \<Rightarrow> bool
     \<Rightarrow> 'w st \<Rightarrow> failure option \<times> 'w st" where
  "link_flow_index sys appDir libDir appPkg libPkg libName appNodeModulesLib globalLinkPath
       doWatch s0 =
     (let globalIsLinkedToLib = isSymlinkTo sys (fst s0) globalLinkPath libDir;
          appIsLinkedToLib = isSymlinkTo sys (fst s0) appNodeModulesLib libDir;
          appHasInstalledFolder = (existsSync sys (fst s0) appNodeModulesLib \<and> \<not> appIsLinkedToLib);
          s1 = emit (Log (Status
                  (Some (if globalIsLinkedToLib then GlobalLinked
                         else if existsSync sys (fst s0) globalLinkPath then GlobalElsewhere
                         else GlobalAbsent))
                  (if appIsLinkedToLib then AppLinked
                   else if appHasInstalledFolder then AppInstalled else AppAbsent))) s0
      in case ensure_global_index sys libDir globalIsLinkedToLib s1 of
           (Some f, s2) \<Rightarrow> (Some f, s2)
         | (None, s2) \<Rightarrow>
             (case ensure_app_link sys True appDir libDir libName appNodeModulesLib
                     appIsLinkedToLib appHasInstalledFolder s2 of
                (Some f, s3) \<Rightarrow> (Some f, s3)
              | (None, s3) \<Rightarrow> (None, warn_and_watch sys appPkg libPkg libDir doWatch s3)))"

definition link_flow_part000 ::
  "'w sys \<Rightarrow> path \<Rightarrow> path \<Rightarrow> manifest \<Rightarrow> manifest \<Rightarrow> string \<Rightarrow> path \<Rightarrow> bool
     \<Rightarrow> 'w st \<Rightarrow> failure option \<times> 'w st" where
  "link_flow_part000 sys appDir libDir appPkg libPkg libName appNodeModulesLib doWatch s0 =
     (let appIsLinkedToLib = isSymlinkTo sys (fst s0) appNodeModulesLib libDir;
          appHasInstalledFolder = (existsSync sys (fst s0) appNodeModulesLib \<and> \<not> appIsLinkedToLib);
          s1 = emit (Log (Status None
                  (if appIsLinkedToLib then AppLinked
                   else if appHasInstalledFolder then AppInstalled else AppAbsent))) s0;
          s2 = ensure_global_part000 sys libDir s1
      in case ensure_app_link sys False appDir libDir libName appNodeModulesLib
                appIsLinkedToLib appHasInstalledFolder s2 of
           (Some f, s3) \<Rightarrow> (Some f, s3)
         | (None, s3) \<Rightarrow> (None, warn_and_watch sys appPkg libPkg libDir doWatch s3))"

section \<open>The two main functions\<close>

text \<open>\<^verbatim>\<open>args[0].replace(/[\\/]+$/, '')\<close>: the trailing run of slashes and backslashes goes.\<close>

definition strip_trailing_seps :: "string \<Rightarrow> string" where
  "strip_trailing_seps s =
     rev (dropWhile (\<lambda>c. c = CHR ''/'' \<or> c = CHR 0x5C) (rev s))"

text \<open>
  The manifests, as both files load them: each must exist, each must parse, and the
  library's must have a truthy \<^verbatim>\<open>name\<close>.
\<close>

definition load_manifests ::
  "'w sys \<Rightarrow> 'w \<Rightarrow> path \<Rightarrow> path \<Rightarrow> failure + (manifest \<times> manifest \<times> string)" where
  "load_manifests sys w appDir libDir =
     (let appPkgPath = path_join sys [appDir, ''package.json''];
          libPkgPath = path_join sys [libDir, ''package.json'']
      in if \<not> existsSync sys w appPkgPath then Inl NoAppPackageJson
         else if \<not> existsSync sys w libPkgPath then Inl NoLibPackageJson
         else
           (case readJson sys w appPkgPath of
              None \<Rightarrow> Inl ReadJsonFailed
            | Some appPkg \<Rightarrow>
                (case readJson sys w libPkgPath of
                   None \<Rightarrow> Inl ReadJsonFailed
                 | Some libPkg \<Rightarrow>
                     (case pkg_name libPkg of
                        None \<Rightarrow> Inl NoLibraryName
                      | Some libName \<Rightarrow>
                          if libName = [] then Inl NoLibraryName
                          else Inr (appPkg, libPkg, libName)))))"

text \<open>The body of \<^verbatim>\<open>main\<close> in \<^verbatim>\<open>src/index.js\<close>, lines 119-258, for at least one argument.\<close>

definition body_index :: "'w sys \<Rightarrow> string list \<Rightarrow> 'w st \<Rightarrow> failure option \<times> 'w st" where
  "body_index sys args s0 =
     (let appDir = cwd sys;
          libRel = strip_trailing_seps (hd args);
          doWatch = (''--watch'' \<in> set args);
          doUnlink = (''--unlink'' \<in> set args);
          doUnlinkGlobal = (''--unlink-global'' \<in> set args);
          libDir = path_resolve sys appDir libRel
      in case load_manifests sys (fst s0) appDir libDir of
           Inl f \<Rightarrow> (Some f, s0)
         | Inr (appPkg, libPkg, libName) \<Rightarrow>
             (let appNodeModulesLib = path_join sys [appDir, ''node_modules'', libName]
              in case npmRootGlobal sys (fst s0) of
                   None \<Rightarrow> (Some (CommandFailed [''config'', ''get'', ''prefix'']), s0)
                 | Some globalRoot \<Rightarrow>
                     (let globalLinkPath = path_join sys [globalRoot, libName]
                      in if doUnlink then
                           unlink_flow_index sys appDir appPkg libName globalLinkPath
                             doUnlinkGlobal s0
                         else
                           link_flow_index sys appDir libDir appPkg libPkg libName
                             appNodeModulesLib globalLinkPath doWatch s0)))"

text \<open>The body of \<^verbatim>\<open>main\<close> in \<^verbatim>\<open>src/unnamed/part_000\<close>, lines 93-203, for at least two arguments.\<close>

definition body_part000 :: "'w sys \<Rightarrow> string list \<Rightarrow> 'w st \<Rightarrow> failure option \<times> 'w st" where
  "body_part000 sys args s0 =
     (let appDir = path_resolve sys (cwd sys) (args ! 0);
          libDir = path_resolve sys (cwd sys) (args ! 1);
          doWatch = (''--watch'' \<in> set args);
          doUnlink = (''--unlink'' \<in> set args);
          doUnlinkGlobal = (''--unlink-global'' \<in> set args)
      in case load_manifests sys (fst s0) appDir libDir of
           Inl f \<Rightarrow> (Some f, s0)
         | Inr (appPkg, libPkg, libName) \<Rightarrow>
             (let appNodeModulesLib = path_join sys [appDir, ''node_modules'', libName]
              in if doUnlink then
                   unlink_flow_part000 sys appDir appPkg libName doUnlinkGlobal s0
                 else
                   link_flow_part000 sys appDir libDir appPkg libPkg libName
                     appNodeModulesLib doWatch s0))"

text \<open>
  The process around the body: \<^verbatim>\<open>usageAndExit\<close> prints the usage and exits with 1; an
  exception of the body reaches \<^verbatim>\<open>.catch\<close>, which prints it and exits with 1; a body
  that returns leaves the exit code 0.
\<close>

definition conclude :: "failure option \<times> 'w st \<Rightarrow> 'w outcome" where
  "conclude r =
     (case r of
        (None, s) \<Rightarrow> \<lparr>exit_code = 0, events = snd s, world = fst s\<rparr>
      | (Some f, s) \<Rightarrow> \<lparr>exit_code = 1, events = snd s @ [Error f], world = fst s\<rparr>)"

definition main_index :: "'w sys \<Rightarrow> string list \<Rightarrow> 'w \<Rightarrow> 'w outcome" where
  "main_index sys args w =
     (if length args < 1 then \<lparr>exit_code = 1, events = [Log Usage], world = w\<rparr>
      else conclude (body_index sys args (w, [])))"

definition main_part000 :: "'w sys \<Rightarrow> string list \<Rightarrow> 'w \<Rightarrow> 'w outcome" where
  "main_part000 sys args w =
     (if length args < 2 then \<lparr>exit_code = 1, events = [Log Usage], world = w\<rparr>
      else conclude (body_part000 sys args (w, [])))"

section \<open>Vocabulary of the properties\<close>

text \<open>
  The verdict of the peer-dependency check on one entry of the library's
  \<^verbatim>\<open>peerDependencies\<close>: the branch that the body of the loop of \<^verbatim>\<open>warnPeerDeps\<close> takes
  for the entry, given what reading its name in the merged declarations returns.
\<close>

datatype verdict = Missing | Mismatch | Silent

definition verdict :: "semver \<Rightarrow> deps \<Rightarrow> string \<times> string \<Rightarrow> verdict" where
  "verdict sv ad e =
     (case js_get ad (fst e) of
        Undefined \<Rightarrow> Missing
      | Inherited \<Rightarrow> Silent
      | Str installed \<Rightarrow>
          if installed = [] then Missing
          else if semver_validRange sv (snd e) \<and> semver_validRange sv installed
                  \<and> \<not> semver_intersects sv (snd e) installed then Mismatch
          else Silent)"

definition mismatch_line :: "deps \<Rightarrow> string \<times> string \<Rightarrow> string" where
  "mismatch_line ad e =
     (case ad (fst e) of None \<Rightarrow> [] | Some installed \<Rightarrow> outOfRange_line installed e)"

text \<open>Events by kind: what a property of a run counts or excludes.\<close>

fun is_app_link :: "event \<Rightarrow> bool" where
  "is_app_link (Run args dir ok) = (length args = 2 \<and> hd args = ''link'')"
| "is_app_link _ = False"

fun is_rm :: "event \<Rightarrow> bool" where
  "is_rm (Rm p ok) = True"
| "is_rm _ = False"

fun is_action :: "event \<Rightarrow> bool" where
  "is_action (Run args dir ok) = True"
| "is_action (Rm p ok) = True"
| "is_action _ = False"

fun after_linking :: "event \<Rightarrow> bool" where
  "after_linking (Warn (Peers w)) = True"
| "after_linking (Log StartingWatcher) = True"
| "after_linking (Spawn args dir) = True"
| "after_linking _ = False"

text \<open>
  The value that wins when a name is declared in several sections of the application's
  manifest, stated without the merge: optional first, then dev, then regular.
\<close>

definition precedence_value :: "manifest \<Rightarrow> string \<Rightarrow> string option" where
  "precedence_value appPkg name =
     (case get_prop (optionalDependencies appPkg) name of
        Some v \<Rightarrow> Some v
      | None \<Rightarrow>
          (case get_prop (devDependencies appPkg) name of
             Some v \<Rightarrow> Some v
           | None \<Rightarrow> get_prop (dependencies appPkg) name))"

text \<open>
  How a run can end, read off what it added to the trace: a body that returns made no
  attempt to link into the application, one that succeeded, or a failed one followed by
  one that succeeded; a body that throws the failure of that link command made two
  failed attempts, the second being the last event, and reached none of the later steps;
  a body that throws anything else made no attempt.
\<close>

definition flow_shape :: "string \<Rightarrow> path \<Rightarrow> failure option \<Rightarrow> event list \<Rightarrow> bool" where
  "flow_shape libName appDir r new =
     (case r of
        None \<Rightarrow>
          filter is_app_link new = []
          \<or> filter is_app_link new = [Run [''link'', libName] (Some appDir) True]
          \<or> filter is_app_link new = [Run [''link'', libName] (Some appDir) False,
                                      Run [''link'', libName] (Some appDir) True]
      | Some f \<Rightarrow>
          if f = CommandFailed [''link'', libName] then
            filter is_app_link new = [Run [''link'', libName] (Some appDir) False,
                                     Run [''link'', libName] (Some appDir) False]
            \<and> filter after_linking new = []
            \<and> new \<noteq> [] \<and> last new = Run [''link'', libName] (Some appDir) False
          else filter is_app_link new = [])"

section \<open>A reference environment\<close>

text \<open>
  A small file system and a package manager with scripted exit statuses, on which the
  model runs: the instance of \<open>sys\<close> at which the theorems below are applied. A node
  is a directory, a file or a symbolic link; a path resolves by following links, up to a
  fixed depth. The package manager knows one library, \<^verbatim>\<open>widgets\<close>, and keeps its
  global links in the directory \<open>global_root\<close> of the world: with the prefix
  \<^verbatim>\<open>/usr/local\<close> that is \<^verbatim>\<open>/usr/local/lib/node_modules\<close> where npm runs on Linux or macOS
  (\<open>posix_state\<close>) and \<^verbatim>\<open>/usr/local/node_modules\<close>, the prefix followed by
  \<^verbatim>\<open>node_modules\<close>, in the layout npm uses on Windows (\<open>fake_state\<close>). A command takes
  its exit status from \<open>exits\<close> (status 0 once the list is used up) and changes the file
  system only when the status is 0.
\<close>

datatype node = Dir | File | Link path

record fake_world =
  nodes :: "(path \<times> node) list"
  exits :: "bool list"
  rm_ok :: bool
  global_root :: path

fun fake_follow :: "nat \<Rightarrow> (path \<times> node) list \<Rightarrow> path \<Rightarrow> path option" where
  "fake_follow 0 ns p =
     (case map_of ns p of None \<Rightarrow> None | Some (Link t) \<Rightarrow> None | Some _ \<Rightarrow> Some p)"
| "fake_follow (Suc n) ns p =
     (case map_of ns p of None \<Rightarrow> None | Some (Link t) \<Rightarrow> fake_follow n ns t | Some _ \<Rightarrow> Some p)"

definition fake_realpath :: "fake_world \<Rightarrow> path \<Rightarrow> path option" where
  "fake_realpath w p = fake_follow (Suc (Suc (Suc 0))) (nodes w) p"

definition fake_lstat :: "fake_world \<Rightarrow> path \<Rightarrow> bool option" where
  "fake_lstat w p =
     (case map_of (nodes w) p of None \<Rightarrow> None | Some (Link t) \<Rightarrow> Some True | Some _ \<Rightarrow> Some False)"

definition fake_readlink :: "fake_world \<Rightarrow> path \<Rightarrow> path option" where
  "fake_readlink w p =
     (case map_of (nodes w) p of Some (Link t) \<Rightarrow> Some t | _ \<Rightarrow> None)"

definition fake_remove :: "path \<Rightarrow> (path \<times> node) list \<Rightarrow> (path \<times> node) list" where
  "fake_remove p ns = filter (\<lambda>e. fst e \<noteq> p) ns"

definition fake_put :: "path \<Rightarrow> node \<Rightarrow> (path \<times> node) list \<Rightarrow> (path \<times> node) list" where
  "fake_put p n ns = (p, n) # fake_remove p ns"

definition fake_rm :: "path \<Rightarrow> fake_world \<Rightarrow> bool \<times> fake_world" where
  "fake_rm p w =
     (if rm_ok w then (True, w\<lparr>nodes := fake_remove p (nodes w)\<rparr>) else (False, w))"

definition fake_join :: "path list \<Rightarrow> path" where
  "fake_join ps = (case ps of [] \<Rightarrow> ''.'' | q # qs \<Rightarrow> foldl (\<lambda>a b. a @ ''/'' @ b) q qs)"

definition fake_dirname :: "path \<Rightarrow> path" where
  "fake_dirname p = rev (tl (dropWhile (\<lambda>c. c \<noteq> CHR ''/'') (rev p)))"

definition fake_resolve :: "path \<Rightarrow> path \<Rightarrow> path" where
  "fake_resolve base p =
     (if take 1 p = ''/'' then p
      else if take 3 p = ''../'' then fake_dirname base @ ''/'' @ drop 3 p
      else base @ ''/'' @ p)"

definition fake_global :: "path \<Rightarrow> string \<Rightarrow> path" where
  "fake_global root name = root @ ''/'' @ name"

definition fake_effect ::
  "path \<Rightarrow> string list \<Rightarrow> path option \<Rightarrow> (path \<times> node) list \<Rightarrow> (path \<times> node) list" where
  "fake_effect root args dir ns =
     (case dir of
        None \<Rightarrow>
          (if take 2 args = [''unlink'', ''-g''] then
             fake_remove (fake_global root (last args)) ns
           else ns)
      | Some d \<Rightarrow>
          if args = [''link''] then fake_put (fake_global root ''widgets'') (Link d) ns
          else if take 2 args = [''unlink'', ''-g''] then
            fake_remove (fake_global root (last args)) ns
          else if take 1 args = [''link''] then
            fake_put (d @ ''/node_modules/'' @ last args) (Link (fake_global root (last args))) ns
          else if take 1 args = [''unlink''] then
            fake_remove (d @ ''/node_modules/'' @ last args) ns
          else if take 1 args = [''install''] then fake_put (d @ ''/node_modules/widgets'') Dir ns
          else ns)"

definition fake_spawn :: "string list \<Rightarrow> path option \<Rightarrow> fake_world \<Rightarrow> bool \<times> fake_world" where
  "fake_spawn args dir w =
     (case exits w of
        [] \<Rightarrow> (True, w\<lparr>nodes := fake_effect (global_root w) args dir (nodes w)\<rparr>)
      | ok # rest \<Rightarrow>
          (ok, if ok then w\<lparr>nodes := fake_effect (global_root w) args dir (nodes w),
                            exits := rest\<rparr>
               else w\<lparr>exits := rest\<rparr>))"

text \<open>
  An excerpt of \<^verbatim>\<open>semver\<close> on the strings of the examples: which are versions,
  which are ranges, which pairs of ranges have a version in common.
\<close>

definition semver_excerpt :: semver where
  "semver_excerpt =
     \<lparr>semver_valid = (\<lambda>v. v \<in> set [''1.2.3'', ''1.0.0'', ''0.5.0-nightly.5'']),
      semver_validRange =
        (\<lambda>r. r \<in> set ['''', ''1.2.3'', ''1.0.0'', ''0.5.0-nightly.5'', ''^1.2.3'', ''^1.0.0'',
                         ''^1.2.0'', ''^2.0.0'']),
      semver_intersects =
        (\<lambda>a b. (a, b) \<in> set [(''^1.0.0'', ''^1.2.0''), (''^1.2.0'', ''^1.0.0''),
                              (''^1.0.0'', ''''), ('''', ''^1.0.0'')])\<rparr>"

definition manifest_of :: "deps option \<Rightarrow> deps option \<Rightarrow> deps option \<Rightarrow> manifest" where
  "manifest_of d dd od =
     \<lparr>pkg_name = Some ''app'', dependencies = d, devDependencies = dd,
      optionalDependencies = od, peerDependencies = None\<rparr>"

definition widgets_manifest :: manifest where
  "widgets_manifest =
     \<lparr>pkg_name = Some ''widgets'', dependencies = None, devDependencies = None,
      optionalDependencies = None, peerDependencies = Some [(''left-pad'', ''^1.0.0'')]\<rparr>"

definition app_manifest :: manifest where
  "app_manifest =
     manifest_of (Some [''left-pad'' \<mapsto> ''^2.0.0''])
       (Some [''widgets'' \<mapsto> ''0.5.0-nightly.5'']) None"

text \<open>A library whose name is one that every object inherits, and two applications for it.\<close>

definition constructor_manifest :: manifest where
  "constructor_manifest =
     \<lparr>pkg_name = Some ''constructor'', dependencies = None, devDependencies = None,
      optionalDependencies = None, peerDependencies = Some [(''constructor'', ''^1.0.0'')]\<rparr>"

definition regular_only_app :: manifest where
  "regular_only_app = manifest_of (Some [''left-pad'' \<mapsto> ''^1.2.0'']) None None"

definition dev_only_app :: manifest where
  "dev_only_app = manifest_of None (Some [''left-pad'' \<mapsto> ''^1.2.0'']) None"

definition fake_sys_for :: "manifest \<Rightarrow> manifest \<Rightarrow> fake_world sys" where
  "fake_sys_for appPkg libPkg =
     \<lparr>cwd = ''/work/app'',
      path_join = fake_join,
      path_resolve = fake_resolve,
      path_dirname = fake_dirname,
      existsSync = (\<lambda>w p. fake_realpath w p \<noteq> None),
      readJson =
        (\<lambda>w p. if p = ''/work/app/package.json'' then Some appPkg
                else if p = ''/work/lib/package.json'' then Some libPkg
                else None),
      lstatSync = fake_lstat,
      readlinkSync = fake_readlink,
      realpathSync = fake_realpath,
      rmSync = fake_rm,
      spawnSync = fake_spawn,
      config_get_prefix = (\<lambda>w. Some ''/usr/local''),
      semver_lib = semver_excerpt\<rparr>"

definition fake_sys :: "fake_world sys" where
  "fake_sys = fake_sys_for app_manifest widgets_manifest"

definition fresh_nodes :: "(path \<times> node) list" where
  "fresh_nodes =
     [(''/work/app'', Dir), (''/work/app/package.json'', File),
      (''/work/lib'', Dir), (''/work/lib/package.json'', File)]"

definition linked_nodes :: "(path \<times> node) list" where
  "linked_nodes =
     (''/work/app/node_modules/widgets'', Link ''/usr/local/node_modules/widgets'')
       # (''/usr/local/node_modules/widgets'', Link ''/work/lib'') # fresh_nodes"

definition posix_linked_nodes :: "(path \<times> node) list" where
  "posix_linked_nodes =
     (''/work/app/node_modules/widgets'', Link ''/usr/local/lib/node_modules/widgets'')
       # (''/usr/local/lib/node_modules/widgets'', Link ''/work/lib'') # fresh_nodes"

definition fake_state :: "(path \<times> node) list \<Rightarrow> bool list \<Rightarrow> fake_world" where
  "fake_state ns es =
     \<lparr>nodes = ns, exits = es, rm_ok = True, global_root = ''/usr/local/node_modules''\<rparr>"

definition posix_state :: "(path \<times> node) list \<Rightarrow> bool list \<Rightarrow> fake_world" where
  "posix_state ns es =
     \<lparr>nodes = ns, exits = es, rm_ok = True, global_root = ''/usr/local/lib/node_modules''\<rparr>"
section \<open>Evaluation lemmas\<close>

lemmas restore_defs =
  installArgs_def installArgs_try_def originalSpec_def originalValue_def inDeps_def
  inDevDeps_def js_or_def js_and_def js_read_def js_get_def js_in_def truthy_def get_prop_def
  startsWith_def is_word_char_def manifest_of_def semver_excerpt_def
  object_prototype_names_def

section \<open>The restore step: which package argument, which flags\<close>

text \<open>
  What the restore step does when the value of \<^verbatim>\<open>originalSpec\<close> is a string or is
  falsy: the bare name without a spec or with a \<^verbatim>\<open>file:\<close> spec, otherwise the name with
  the spec, and \<^verbatim>\<open>--save-exact\<close> exactly when \<^verbatim>\<open>semver.valid\<close> accepts the spec or the
  regular expression finds a dash followed by a word character.
\<close>

lemma installArgs_try_cases:
  "installArgs_try sv appPkg libName =
     (case originalValue appPkg libName of
        Inherited \<Rightarrow> Inl TypeError
      | Undefined \<Rightarrow>
          Inr [''install'', if inDevDeps appPkg libName then ''--save-dev'' else ''--save-prod'',
               libName]
      | Str spec \<Rightarrow>
          Inr ([''install'', if inDevDeps appPkg libName then ''--save-dev'' else ''--save-prod'']
               @ (if spec = [] \<or> startsWith spec ''file:'' then [libName]
                  else (libName @ ''@'' @ spec)
                       # (if semver_valid sv spec \<or> test_dash_word spec then [''--save-exact'']
                          else []))))"
  by (simp add: installArgs_try_def Let_def split: jsval.splits)

lemma originalValue_Inherited_iff:
  "originalValue appPkg libName = Inherited \<longleftrightarrow>
     libName \<in> set object_prototype_names
     \<and> ((\<exists>d. dependencies appPkg = Some d \<and> d libName = None)
        \<or> (\<not> truthy (js_read (dependencies appPkg) libName)
           \<and> (\<exists>dd. devDependencies appPkg = Some dd \<and> dd libName = None)))"
  by (auto simp: originalValue_def js_or_def js_and_def js_read_def js_get_def js_in_def
        truthy_def inDeps_def inDevDeps_def split: option.splits if_splits)

lemma restore_app_type_error:
  assumes "originalValue appPkg libName = Inherited"
    and "spawnSync sys [''unlink'', libName] (Some appDir) w = (ok, w1)"
  shows "restore_app sys appDir appPkg libName (w, evs)
       = (Some TypeError,
          (w1, evs @ [Log Unlinking, Run [''unlink'', libName] (Some appDir) ok]
                 @ (if ok then [] else [Warn AppUnlinkFailed])))"
  using assms by (simp add: restore_app_def installArgs_try_cases run_def emit_def Let_def)

text \<open>
  For a library whose name is not one that every object inherits, the restore step
  follows the policy: \<^verbatim>\<open>--save-dev\<close> exactly when \<^verbatim>\<open>devDependencies\<close> declares the name,
  the bare name when no spec is found or the spec starts with \<^verbatim>\<open>file:\<close>, otherwise the
  name with the spec, and \<^verbatim>\<open>--save-exact\<close> as above; and the flow runs the command with
  these arguments.
\<close>

lemma restore_policy_ordinary_name:
  assumes "libName \<notin> set object_prototype_names"
  shows "installArgs_try sv appPkg libName
       = Inr ([''install'',
               if get_prop (devDependencies appPkg) libName \<noteq> None then ''--save-dev''
               else ''--save-prod'']
              @ (case originalSpec appPkg libName of
                   None \<Rightarrow> [libName]
                 | Some spec \<Rightarrow>
                     if startsWith spec ''file:'' then [libName]
                     else (libName @ ''@'' @ spec)
                          # (if semver_valid sv spec \<or> test_dash_word spec
                             then [''--save-exact''] else [])))"
    and "originalSpec appPkg libName
       = (case get_prop (dependencies appPkg) libName of
            Some (c # cs) \<Rightarrow> Some (c # cs)
          | _ \<Rightarrow>
              (case get_prop (devDependencies appPkg) libName of
                 Some (c # cs) \<Rightarrow> Some (c # cs)
               | _ \<Rightarrow> None))"
  using assms
  by (auto simp: installArgs_try_def originalSpec_def originalValue_def inDeps_def inDevDeps_def
        js_or_def js_and_def js_read_def js_get_def js_in_def truthy_def get_prop_def Let_def
        startsWith_def
        split: option.splits list.splits jsval.splits)

lemma restore_app_runs_install:
  assumes "installArgs_try (semver_lib sys) appPkg libName = Inr args"
  shows "\<exists>ok. Run args (Some appDir) ok
          \<in> set (snd (snd (restore_app sys appDir appPkg libName s)))"
  using assms by (auto simp: restore_app_def run_def emit_def Let_def split: prod.splits)

lemma restore_examples:
  "installArgs semver_excerpt (manifest_of (Some [''widgets'' \<mapsto> ''1.2.3'']) None None)
     ''widgets'' = [''install'', ''--save-prod'', ''widgets@1.2.3'', ''--save-exact'']"
  "installArgs semver_excerpt (manifest_of (Some [''widgets'' \<mapsto> ''^1.2.3'']) None None)
     ''widgets'' = [''install'', ''--save-prod'', ''widgets@^1.2.3'']"
  "semver_valid semver_excerpt ''2.0.0-beta'' = False"
  "installArgs semver_excerpt (manifest_of None (Some [''widgets'' \<mapsto> ''2.0.0-beta'']) None)
     ''widgets'' = [''install'', ''--save-dev'', ''widgets@2.0.0-beta'', ''--save-exact'']"
  "installArgs semver_excerpt (manifest_of (Some [''widgets'' \<mapsto> ''file:../widgets'']) None None)
     ''widgets'' = [''install'', ''--save-prod'', ''widgets'']"
  "installArgs semver_excerpt (manifest_of None None None) ''widgets''
     = [''install'', ''--save-prod'', ''widgets'']"
  by (simp_all add: restore_defs)

lemma fake_inherited_name:
  "main_index (fake_sys_for regular_only_app constructor_manifest) [''../lib'', ''--unlink'']
      (fake_state fresh_nodes [])
     = \<lparr>exit_code = 1,
        events = [Log Unlinking, Run [''unlink'', ''constructor''] (Some ''/work/app'') True,
                  Error TypeError],
        world = fake_state fresh_nodes []\<rparr>"
  "main_part000 (fake_sys_for regular_only_app constructor_manifest)
      [''/work/app'', ''../lib'', ''--unlink''] (fake_state fresh_nodes [])
     = \<lparr>exit_code = 1,
        events = [Log Unlinking, Run [''unlink'', ''constructor''] (Some ''/work/app'') True,
                  Error TypeError],
        world = fake_state fresh_nodes []\<rparr>"
  "main_index (fake_sys_for dev_only_app constructor_manifest) [''../lib'', ''--unlink'']
      (fake_state fresh_nodes [])
     = \<lparr>exit_code = 1,
        events = [Log Unlinking, Run [''unlink'', ''constructor''] (Some ''/work/app'') True,
                  Error TypeError],
        world = fake_state fresh_nodes []\<rparr>"
  "main_part000 (fake_sys_for dev_only_app constructor_manifest)
      [''/work/app'', ''../lib'', ''--unlink''] (fake_state fresh_nodes [])
     = \<lparr>exit_code = 1,
        events = [Log Unlinking, Run [''unlink'', ''constructor''] (Some ''/work/app'') True,
                  Error TypeError],
        world = fake_state fresh_nodes []\<rparr>"
  by code_simp+

text \<open>
  C1, where the code departs from it. The library is named \<^verbatim>\<open>constructor\<close> and the
  application declares \<^verbatim>\<open>left-pad\<close> only, in \<^verbatim>\<open>dependencies\<close>: no spec is declared for
  the library, so the restore step should reinstall the bare name. The source's
  \<^verbatim>\<open>libName in appPkg.dependencies\<close> is true for the inherited name, \<^verbatim>\<open>originalSpec\<close>
  becomes the inherited function, and \<^verbatim>\<open>originalSpec.startsWith\<close> throws: in both files
  the run unlinks the library, reinstalls nothing and exits with 1.
\<close>

theorem restore_inherited_name_throws:
  "get_prop (dependencies regular_only_app) ''constructor'' = None
   \<and> get_prop (devDependencies regular_only_app) ''constructor'' = None
   \<and> originalValue regular_only_app ''constructor'' = Inherited
   \<and> installArgs_try semver_excerpt regular_only_app ''constructor'' = Inl TypeError
   \<and> main_index (fake_sys_for regular_only_app constructor_manifest) [''../lib'', ''--unlink'']
        (fake_state fresh_nodes [])
      = \<lparr>exit_code = 1,
         events = [Log Unlinking, Run [''unlink'', ''constructor''] (Some ''/work/app'') True,
                   Error TypeError],
         world = fake_state fresh_nodes []\<rparr>
   \<and> main_part000 (fake_sys_for regular_only_app constructor_manifest)
        [''/work/app'', ''../lib'', ''--unlink''] (fake_state fresh_nodes [])
      = \<lparr>exit_code = 1,
         events = [Log Unlinking, Run [''unlink'', ''constructor''] (Some ''/work/app'') True,
                   Error TypeError],
         world = fake_state fresh_nodes []\<rparr>"
proof -
  have "get_prop (dependencies regular_only_app) ''constructor'' = None
      \<and> get_prop (devDependencies regular_only_app) ''constructor'' = None
      \<and> originalValue regular_only_app ''constructor'' = Inherited
      \<and> installArgs_try semver_excerpt regular_only_app ''constructor'' = Inl TypeError"
    by (simp add: restore_defs regular_only_app_def)
  then show ?thesis
    by (simp add: fake_inherited_name)
qed

text \<open>
  C7, where the code departs from it. The library is named \<^verbatim>\<open>constructor\<close> and the
  application has a \<^verbatim>\<open>devDependencies\<close> section that does not declare it (and no
  \<^verbatim>\<open>dependencies\<close> section), so the reinstall should carry \<^verbatim>\<open>--save-prod\<close>. The
  source's \<^verbatim>\<open>libName in appPkg.devDependencies\<close> is true for the inherited name: it
  chooses \<^verbatim>\<open>--save-dev\<close>, then throws on the inherited value as above, and no reinstall
  command is run at all.
\<close>

theorem section_flag_inherited_name:
  "get_prop (devDependencies dev_only_app) ''constructor'' = None
   \<and> inDevDeps dev_only_app ''constructor''
   \<and> originalValue dev_only_app ''constructor'' = Inherited
   \<and> main_index (fake_sys_for dev_only_app constructor_manifest) [''../lib'', ''--unlink'']
        (fake_state fresh_nodes [])
      = \<lparr>exit_code = 1,
         events = [Log Unlinking, Run [''unlink'', ''constructor''] (Some ''/work/app'') True,
                   Error TypeError],
         world = fake_state fresh_nodes []\<rparr>
   \<and> main_part000 (fake_sys_for dev_only_app constructor_manifest)
        [''/work/app'', ''../lib'', ''--unlink''] (fake_state fresh_nodes [])
      = \<lparr>exit_code = 1,
         events = [Log Unlinking, Run [''unlink'', ''constructor''] (Some ''/work/app'') True,
                   Error TypeError],
         world = fake_state fresh_nodes []\<rparr>"
proof -
  have "get_prop (devDependencies dev_only_app) ''constructor'' = None
      \<and> inDevDeps dev_only_app ''constructor''
      \<and> originalValue dev_only_app ''constructor'' = Inherited"
    by (simp add: restore_defs dev_only_app_def)
  then show ?thesis
    by (simp add: fake_inherited_name)
qed



section \<open>The peer-dependency check: precedence and verdicts\<close>

lemma appDeps_lookup: "appDeps appPkg name = precedence_value appPkg name"
  by (auto simp: appDeps_def spread_def get_prop_def map_add_def precedence_value_def
        split: option.splits)

lemma peer_loop_cong:
  "\<forall>e \<in> set peers. ad (fst e) = ad' (fst e) \<Longrightarrow>
     peer_loop sv ad peers acc = peer_loop sv ad' peers acc"
proof (induction sv ad peers acc rule: peer_loop.induct)
  case (1 sv ad acc)
  then show ?case by simp
next
  case (2 sv ad name rng rest missing outOfRange)
  then show ?case by (auto simp: js_get_def split: option.splits)
qed

lemma peer_loop_verdicts:
  "peer_loop sv ad peers (missing, outOfRange) =
     (missing @ map missing_line (filter (\<lambda>e. verdict sv ad e = Missing) peers),
      outOfRange @ map (mismatch_line ad) (filter (\<lambda>e. verdict sv ad e = Mismatch) peers))"
proof (induction peers arbitrary: missing outOfRange)
  case Nil
  then show ?case by simp
next
  case (Cons e peers)
  obtain name rng where e: "e = (name, rng)" by (cases e)
  show ?case
    unfolding e
    by (auto simp: Cons.IH js_get_def verdict_def mismatch_line_def missing_line_def
          split: option.splits)
qed

lemma warn_and_watch_events:
  "warn_and_watch sys appPkg libPkg libDir doWatch (w, evs)
     = (w, evs @ map (\<lambda>x. Warn (Peers x)) (warnPeerDeps (semver_lib sys) appPkg libPkg)
             @ (if doWatch then [Log StartingWatcher,
                                 Spawn [''run'', ''build'', ''--'', ''--watch''] libDir]
                else []))"
  by (simp add: warn_and_watch_def emit_def Let_def)

lemma fst_after_step:
  "fst (case r of (Some f, s') \<Rightarrow> (Some f, s') | (None, s') \<Rightarrow> h s')
     = (case r of (Some f, s') \<Rightarrow> Some f | (None, s') \<Rightarrow> fst (h s'))"
  by (simp split: prod.splits option.splits)

lemma link_flow_index_any_manifest:
  "fst (link_flow_index sys appDir libDir appPkg libPkg libName p gp doWatch s)
     = fst (link_flow_index sys appDir libDir appPkg' libPkg' libName p gp doWatch s)"
  unfolding link_flow_index_def Let_def fst_after_step fst_conv ..

lemma link_flow_part000_any_manifest:
  "fst (link_flow_part000 sys appDir libDir appPkg libPkg libName p doWatch s)
     = fst (link_flow_part000 sys appDir libDir appPkg' libPkg' libName p doWatch s)"
  unfolding link_flow_part000_def Let_def fst_after_step fst_conv ..

text \<open>
  C10. In the peer-dependency check, the value that the library's range is compared with
  is the one of \<^verbatim>\<open>optionalDependencies\<close> when the name is declared there, else the one
  of \<^verbatim>\<open>devDependencies\<close>, else the one of \<^verbatim>\<open>dependencies\<close>; two applications that agree
  on this value for every peer name get the same warnings, whatever else they declare.
\<close>

theorem merge_precedence:
  "appDeps appPkg name
     = (case get_prop (optionalDependencies appPkg) name of
          Some v \<Rightarrow> Some v
        | None \<Rightarrow>
            (case get_prop (devDependencies appPkg) name of
               Some v \<Rightarrow> Some v
             | None \<Rightarrow> get_prop (dependencies appPkg) name))
   \<and> (\<forall>peers. peerDependencies libPkg = Some peers
         \<and> (\<forall>e \<in> set peers. precedence_value appPkg (fst e) = precedence_value appPkg' (fst e))
       \<longrightarrow> warnPeerDeps sv appPkg libPkg = warnPeerDeps sv appPkg' libPkg)"
proof (intro conjI allI impI)
  show "appDeps appPkg name
     = (case get_prop (optionalDependencies appPkg) name of
          Some v \<Rightarrow> Some v
        | None \<Rightarrow>
            (case get_prop (devDependencies appPkg) name of
               Some v \<Rightarrow> Some v
             | None \<Rightarrow> get_prop (dependencies appPkg) name))"
    by (simp add: appDeps_lookup precedence_value_def)
next
  fix peers
  assume a: "peerDependencies libPkg = Some peers
         \<and> (\<forall>e \<in> set peers. precedence_value appPkg (fst e) = precedence_value appPkg' (fst e))"
  then have "\<forall>e \<in> set peers. appDeps appPkg (fst e) = appDeps appPkg' (fst e)"
    by (simp add: appDeps_lookup)
  then have "peer_loop sv (appDeps appPkg) peers ([], [])
               = peer_loop sv (appDeps appPkg') peers ([], [])"
    by (rule peer_loop_cong)
  with a show "warnPeerDeps sv appPkg libPkg = warnPeerDeps sv appPkg' libPkg"
    by (simp add: warnPeerDeps_def)
qed

theorem merge_precedence_witness:
  "appDeps (manifest_of (Some [''left-pad'' \<mapsto> ''^1.2.0'']) (Some [''left-pad'' \<mapsto> ''^1.0.0''])
       (Some [''left-pad'' \<mapsto> ''^2.0.0''])) ''left-pad'' = Some ''^2.0.0''
   \<and> appDeps (manifest_of (Some [''left-pad'' \<mapsto> ''^1.2.0'']) (Some [''left-pad'' \<mapsto> ''^2.0.0''])
       None) ''left-pad'' = Some ''^2.0.0''
   \<and> peerDependencies widgets_manifest = Some [(''left-pad'', ''^1.0.0'')]
   \<and> warnPeerDeps semver_excerpt
        (manifest_of (Some [''left-pad'' \<mapsto> ''^1.2.0'']) (Some [''left-pad'' \<mapsto> ''^1.0.0''])
           (Some [''left-pad'' \<mapsto> ''^2.0.0''])) widgets_manifest
      = warnPeerDeps semver_excerpt
          (manifest_of None (Some [''left-pad'' \<mapsto> ''^2.0.0'']) None) widgets_manifest
   \<and> warnPeerDeps semver_excerpt
        (manifest_of (Some [''left-pad'' \<mapsto> ''^1.2.0'']) (Some [''left-pad'' \<mapsto> ''^1.0.0''])
           (Some [''left-pad'' \<mapsto> ''^2.0.0''])) widgets_manifest
      = [VersionMismatch [''left-pad (app has ^2.0.0, lib expects ^1.0.0)'']]"
  using
    merge_precedence [of
      "manifest_of (Some [''left-pad'' \<mapsto> ''^1.2.0'']) (Some [''left-pad'' \<mapsto> ''^1.0.0''])
         (Some [''left-pad'' \<mapsto> ''^2.0.0''])" "''left-pad''" widgets_manifest
      "manifest_of None (Some [''left-pad'' \<mapsto> ''^2.0.0'']) None" semver_excerpt]
    merge_precedence [of
      "manifest_of (Some [''left-pad'' \<mapsto> ''^1.2.0'']) (Some [''left-pad'' \<mapsto> ''^2.0.0'']) None"
      "''left-pad''" widgets_manifest
      "manifest_of None (Some [''left-pad'' \<mapsto> ''^2.0.0'']) None" semver_excerpt]
  by (simp add: manifest_of_def widgets_manifest_def get_prop_def precedence_value_def
        warnPeerDeps_def appDeps_def spread_def js_get_def semver_excerpt_def
        outOfRange_line_def missing_line_def)

text \<open>
  A peer whose name is one that every object inherits, and that the application does not
  declare, is not reported at all: reading the name in the merged declarations returns
  the inherited value, which is truthy and is no valid range.
\<close>

lemma peer_inherited_name_skipped:
  "peerDependencies constructor_manifest = Some [(''constructor'', ''^1.0.0'')]
   \<and> appDeps (manifest_of None None None) ''constructor'' = None
   \<and> verdict semver_excerpt (appDeps (manifest_of None None None)) (''constructor'', ''^1.0.0'')
      = Silent
   \<and> warnPeerDeps semver_excerpt (manifest_of None None None) constructor_manifest = []"
  by (simp add: constructor_manifest_def manifest_of_def warnPeerDeps_def appDeps_def spread_def
        verdict_def js_get_def object_prototype_names_def)

text \<open>
  C2, as amended. For an entry of the library's \<^verbatim>\<open>peerDependencies\<close> whose name is not
  one that every object inherits, or whose name the application declares: the entry is
  reported as missing when the merged declarations of the application (regular, dev and
  optional) have no value for its name or have the empty string; otherwise it is
  reported as a version mismatch when both the library's range and the application's
  value are valid ranges that do not intersect, and it is not reported at all when they
  intersect or when one of the two is not a valid range. The first four conjuncts spell
  these verdicts out on the merged declarations; the sixth says that the warnings
  \<^verbatim>\<open>warnPeerDeps\<close> prints are exactly the entries with the verdict missing and the entries
  with the verdict mismatch, each list in the order of the entries and printed only when
  it is not empty; the seventh, that the link flow prints them after the link steps,
  before the watcher. The check cannot fail the run: whether the link flow returns or
  throws does not depend on the manifests (last two conjuncts).
\<close>

theorem peer_check_verdicts:
  "(\<forall>name rng. (appDeps appPkg name = None \<and> name \<notin> set object_prototype_names
                 \<or> appDeps appPkg name = Some [])
       \<longrightarrow> verdict sv (appDeps appPkg) (name, rng) = Missing)
   \<and> (\<forall>name rng installed. appDeps appPkg name = Some installed \<and> installed \<noteq> []
         \<and> semver_validRange sv rng \<and> semver_validRange sv installed
         \<and> \<not> semver_intersects sv rng installed
       \<longrightarrow> verdict sv (appDeps appPkg) (name, rng) = Mismatch)
   \<and> (\<forall>name rng installed. appDeps appPkg name = Some installed \<and> installed \<noteq> []
         \<and> semver_validRange sv rng \<and> semver_validRange sv installed
         \<and> semver_intersects sv rng installed
       \<longrightarrow> verdict sv (appDeps appPkg) (name, rng) = Silent)
   \<and> (\<forall>name rng installed. appDeps appPkg name = Some installed \<and> installed \<noteq> []
         \<and> (\<not> semver_validRange sv rng \<or> \<not> semver_validRange sv installed)
       \<longrightarrow> verdict sv (appDeps appPkg) (name, rng) = Silent)
   \<and> (peerDependencies libPkg = None \<longrightarrow> warnPeerDeps sv appPkg libPkg = [])
   \<and> (\<forall>peers. peerDependencies libPkg = Some peers
       \<longrightarrow> warnPeerDeps sv appPkg libPkg
           = (if filter (\<lambda>e. verdict sv (appDeps appPkg) e = Missing) peers \<noteq> [] then
                [MissingPeers (map missing_line
                   (filter (\<lambda>e. verdict sv (appDeps appPkg) e = Missing) peers))]
              else [])
             @ (if filter (\<lambda>e. verdict sv (appDeps appPkg) e = Mismatch) peers \<noteq> [] then
                  [VersionMismatch (map (mismatch_line (appDeps appPkg))
                     (filter (\<lambda>e. verdict sv (appDeps appPkg) e = Mismatch) peers))]
                else []))
   \<and> warn_and_watch sys appPkg libPkg libDir doWatch (w, evs)
       = (w, evs @ map (\<lambda>x. Warn (Peers x)) (warnPeerDeps (semver_lib sys) appPkg libPkg)
               @ (if doWatch then [Log StartingWatcher,
                                   Spawn [''run'', ''build'', ''--'', ''--watch''] libDir]
                  else []))
   \<and> fst (link_flow_index sys appDir libDir appPkg libPkg libName p gp doWatch s)
       = fst (link_flow_index sys appDir libDir appPkg' libPkg' libName p gp doWatch s)
   \<and> fst (link_flow_part000 sys appDir libDir appPkg libPkg libName p doWatch s)
       = fst (link_flow_part000 sys appDir libDir appPkg' libPkg' libName p doWatch s)"
proof (intro conjI)
  show "peerDependencies libPkg = None \<longrightarrow> warnPeerDeps sv appPkg libPkg = []"
    by (simp add: warnPeerDeps_def)
  show "\<forall>peers. peerDependencies libPkg = Some peers
       \<longrightarrow> warnPeerDeps sv appPkg libPkg
           = (if filter (\<lambda>e. verdict sv (appDeps appPkg) e = Missing) peers \<noteq> [] then
                [MissingPeers (map missing_line
                   (filter (\<lambda>e. verdict sv (appDeps appPkg) e = Missing) peers))]
              else [])
             @ (if filter (\<lambda>e. verdict sv (appDeps appPkg) e = Mismatch) peers \<noteq> [] then
                  [VersionMismatch (map (mismatch_line (appDeps appPkg))
                     (filter (\<lambda>e. verdict sv (appDeps appPkg) e = Mismatch) peers))]
                else [])"
    by (simp add: warnPeerDeps_def peer_loop_verdicts [of sv _ _ "[]" "[]", simplified])
  show "warn_and_watch sys appPkg libPkg libDir doWatch (w, evs)
       = (w, evs @ map (\<lambda>x. Warn (Peers x)) (warnPeerDeps (semver_lib sys) appPkg libPkg)
               @ (if doWatch then [Log StartingWatcher,
                                   Spawn [''run'', ''build'', ''--'', ''--watch''] libDir]
                  else []))"
    by (rule warn_and_watch_events)
  show "fst (link_flow_index sys appDir libDir appPkg libPkg libName p gp doWatch s)
       = fst (link_flow_index sys appDir libDir appPkg' libPkg' libName p gp doWatch s)"
    by (rule link_flow_index_any_manifest)
  show "fst (link_flow_part000 sys appDir libDir appPkg libPkg libName p doWatch s)
       = fst (link_flow_part000 sys appDir libDir appPkg' libPkg' libName p doWatch s)"
    by (rule link_flow_part000_any_manifest)
qed (auto simp: verdict_def js_get_def)

theorem peer_check_verdicts_witness:
  "peerDependencies widgets_manifest = Some [(''left-pad'', ''^1.0.0'')]
   \<and> ''left-pad'' \<notin> set object_prototype_names
   \<and> verdict semver_excerpt (appDeps (manifest_of None None None)) (''left-pad'', ''^1.0.0'')
      = Missing
   \<and> warnPeerDeps semver_excerpt (manifest_of None None None) widgets_manifest
      = [MissingPeers [''left-pad@^1.0.0'']]
   \<and> verdict semver_excerpt
        (appDeps (manifest_of (Some [''left-pad'' \<mapsto> ''^2.0.0'']) None None))
        (''left-pad'', ''^1.0.0'') = Mismatch
   \<and> warnPeerDeps semver_excerpt (manifest_of (Some [''left-pad'' \<mapsto> ''^2.0.0'']) None None)
        widgets_manifest
      = [VersionMismatch [''left-pad (app has ^2.0.0, lib expects ^1.0.0)'']]
   \<and> verdict semver_excerpt
        (appDeps (manifest_of (Some [''left-pad'' \<mapsto> ''^1.2.0'']) None None))
        (''left-pad'', ''^1.0.0'') = Silent
   \<and> warnPeerDeps semver_excerpt (manifest_of (Some [''left-pad'' \<mapsto> ''^1.2.0'']) None None)
        widgets_manifest = []
   \<and> verdict semver_excerpt
        (appDeps (manifest_of (Some [''left-pad'' \<mapsto> ''latest'']) None None))
        (''left-pad'', ''^1.0.0'') = Silent
   \<and> warnPeerDeps semver_excerpt (manifest_of (Some [''left-pad'' \<mapsto> ''latest'']) None None)
        widgets_manifest = []
   \<and> verdict semver_excerpt
        (appDeps (manifest_of (Some [''left-pad'' \<mapsto> '''']) None None))
        (''left-pad'', ''^1.0.0'') = Missing
   \<and> peerDependencies (manifest_of None None None) = None
   \<and> warnPeerDeps semver_excerpt widgets_manifest (manifest_of None None None) = []"
proof -
  let ?none = "manifest_of None None None"
  let ?two = "manifest_of (Some [''left-pad'' \<mapsto> ''^2.0.0'']) None None"
  let ?one = "manifest_of (Some [''left-pad'' \<mapsto> ''^1.2.0'']) None None"
  let ?tag = "manifest_of (Some [''left-pad'' \<mapsto> ''latest'']) None None"
  let ?empty = "manifest_of (Some [''left-pad'' \<mapsto> '''']) None None"
  have n: "''left-pad'' \<notin> set object_prototype_names"
    by (simp add: object_prototype_names_def)
  have v0: "verdict semver_excerpt (appDeps ?none) (''left-pad'', ''^1.0.0'') = Missing"
    using peer_check_verdicts [of ?none semver_excerpt widgets_manifest, THEN conjunct1] n
    by (simp add: manifest_of_def appDeps_def spread_def)
  have v1: "verdict semver_excerpt (appDeps ?two) (''left-pad'', ''^1.0.0'') = Mismatch"
    using peer_check_verdicts [of ?two semver_excerpt widgets_manifest, THEN conjunct2,
        THEN conjunct1, rule_format, of "''left-pad''" "''^2.0.0''" "''^1.0.0''"]
    by (simp add: manifest_of_def appDeps_def spread_def semver_excerpt_def)
  have v2: "verdict semver_excerpt (appDeps ?one) (''left-pad'', ''^1.0.0'') = Silent"
    using peer_check_verdicts [of ?one semver_excerpt widgets_manifest, THEN conjunct2,
        THEN conjunct2, THEN conjunct1, rule_format,
        of "''left-pad''" "''^1.2.0''" "''^1.0.0''"]
    by (simp add: manifest_of_def appDeps_def spread_def semver_excerpt_def)
  have v3: "verdict semver_excerpt (appDeps ?tag) (''left-pad'', ''^1.0.0'') = Silent"
    using peer_check_verdicts [of ?tag semver_excerpt widgets_manifest, THEN conjunct2,
        THEN conjunct2, THEN conjunct2, THEN conjunct1, rule_format,
        of "''left-pad''" "''latest''" "''^1.0.0''"]
    by (simp add: manifest_of_def appDeps_def spread_def semver_excerpt_def)
  have v4: "verdict semver_excerpt (appDeps ?empty) (''left-pad'', ''^1.0.0'') = Missing"
    using peer_check_verdicts [of ?empty semver_excerpt widgets_manifest, THEN conjunct1]
    by (simp add: manifest_of_def appDeps_def spread_def)
  have p: "peerDependencies widgets_manifest = Some [(''left-pad'', ''^1.0.0'')]"
    by (simp add: widgets_manifest_def manifest_of_def)
  have q: "peerDependencies ?none = None"
    by (simp add: manifest_of_def)
  have w0: "warnPeerDeps semver_excerpt ?none widgets_manifest
      = [MissingPeers [''left-pad@^1.0.0'']]"
    using peer_check_verdicts [of ?none semver_excerpt widgets_manifest, THEN conjunct2,
        THEN conjunct2, THEN conjunct2, THEN conjunct2, THEN conjunct2, THEN conjunct1,
        rule_format, of "[(''left-pad'', ''^1.0.0'')]"] p v0
    by (simp add: missing_line_def)
  have w1: "warnPeerDeps semver_excerpt ?two widgets_manifest
      = [VersionMismatch [''left-pad (app has ^2.0.0, lib expects ^1.0.0)'']]"
    using peer_check_verdicts [of ?two semver_excerpt widgets_manifest, THEN conjunct2,
        THEN conjunct2, THEN conjunct2, THEN conjunct2, THEN conjunct2, THEN conjunct1,
        rule_format, of "[(''left-pad'', ''^1.0.0'')]"] p v1
    by (simp add: mismatch_line_def outOfRange_line_def manifest_of_def appDeps_def
          spread_def)
  have w2: "warnPeerDeps semver_excerpt ?one widgets_manifest = []"
    using peer_check_verdicts [of ?one semver_excerpt widgets_manifest, THEN conjunct2,
        THEN conjunct2, THEN conjunct2, THEN conjunct2, THEN conjunct2, THEN conjunct1,
        rule_format, of "[(''left-pad'', ''^1.0.0'')]"] p v2
    by simp
  have w3: "warnPeerDeps semver_excerpt ?tag widgets_manifest = []"
    using peer_check_verdicts [of ?tag semver_excerpt widgets_manifest, THEN conjunct2,
        THEN conjunct2, THEN conjunct2, THEN conjunct2, THEN conjunct2, THEN conjunct1,
        rule_format, of "[(''left-pad'', ''^1.0.0'')]"] p v3
    by simp
  have w4: "warnPeerDeps semver_excerpt widgets_manifest ?none = []"
    using peer_check_verdicts [of widgets_manifest semver_excerpt ?none, THEN conjunct2,
        THEN conjunct2, THEN conjunct2, THEN conjunct2, THEN conjunct1] q
    by simp
  from v0 v1 v2 v3 v4 w0 w1 w2 w3 w4 p q n show ?thesis by simp
qed

text \<open>
  Without the amendment the statement fails: the application declares \<^verbatim>\<open>left-pad\<close> with the empty
  string (which \<^verbatim>\<open>semver\<close> reads as any version), so its merged declarations do contain
  an entry for the name, and the entry is reported as missing.
\<close>

theorem peer_check_counterexample:
  "appDeps (manifest_of (Some [''left-pad'' \<mapsto> '''']) None None) ''left-pad'' = Some ''''
   \<and> semver_validRange semver_excerpt ''^1.0.0'' \<and> semver_validRange semver_excerpt ''''
   \<and> semver_intersects semver_excerpt ''^1.0.0'' ''''
   \<and> warnPeerDeps semver_excerpt (manifest_of (Some [''left-pad'' \<mapsto> '''']) None None)
        widgets_manifest
      = [MissingPeers [''left-pad@^1.0.0'']]"
  by (simp add: manifest_of_def widgets_manifest_def warnPeerDeps_def appDeps_def spread_def
        js_get_def semver_excerpt_def missing_line_def)
section \<open>The shape of a run\<close>

lemma installArgs_length:
  "installArgs_try sv appPkg libName = Inr args \<Longrightarrow> 3 \<le> length args"
  by (auto simp: installArgs_try_cases split: jsval.splits)

lemma link_into_app_first_ok:
  "spawnSync sys [''link'', libName] (Some appDir) w = (True, w1) \<Longrightarrow>
     link_into_app sys wu appDir libName (w, evs)
       = (None, (w1, evs @ [Log LinkingApp, Run [''link'', libName] (Some appDir) True]))"
  by (simp add: link_into_app_def run_def emit_def)

lemma link_into_app_retry:
  "spawnSync sys [''link'', libName] (Some appDir) w = (False, w1) \<Longrightarrow>
   spawnSync sys [''unlink'', libName] (Some appDir) w1 = (ok2, w2) \<Longrightarrow>
   spawnSync sys [''link'', libName] (Some appDir) w2 = (ok3, w3) \<Longrightarrow>
     link_into_app sys wu appDir libName (w, evs)
       = (if ok3 then None else Some (CommandFailed [''link'', libName]),
          (w3, evs @ [Log LinkingApp, Run [''link'', libName] (Some appDir) False,
                      Warn FirstAttemptFailed, Run [''unlink'', libName] (Some appDir) ok2]
                 @ (if \<not> ok2 \<and> wu then [Warn AppUnlinkFailed] else [])
                 @ [Run [''link'', libName] (Some appDir) ok3]))"
  by (simp add: link_into_app_def run_def emit_def Let_def)

lemma link_into_app_shape:
  "\<exists>r w' new. link_into_app sys wu appDir libName (w, evs) = (r, (w', evs @ new))
      \<and> filter after_linking new = []
      \<and> ((r = None
            \<and> (filter is_app_link new = [Run [''link'', libName] (Some appDir) True]
               \<or> filter is_app_link new = [Run [''link'', libName] (Some appDir) False,
                                           Run [''link'', libName] (Some appDir) True]))
         \<or> (r = Some (CommandFailed [''link'', libName])
            \<and> filter is_app_link new = [Run [''link'', libName] (Some appDir) False,
                                        Run [''link'', libName] (Some appDir) False]
            \<and> (\<exists>pre. new = pre @ [Run [''link'', libName] (Some appDir) False])))"
proof -
  obtain ok1 w1 where a: "spawnSync sys [''link'', libName] (Some appDir) w = (ok1, w1)"
    by (cases "spawnSync sys [''link'', libName] (Some appDir) w")
  obtain ok2 w2 where b: "spawnSync sys [''unlink'', libName] (Some appDir) w1 = (ok2, w2)"
    by (cases "spawnSync sys [''unlink'', libName] (Some appDir) w1")
  obtain ok3 w3 where c: "spawnSync sys [''link'', libName] (Some appDir) w2 = (ok3, w3)"
    by (cases "spawnSync sys [''link'', libName] (Some appDir) w2")
  show ?thesis
  proof (cases ok1)
    case True
    with a show ?thesis
      by (simp add: link_into_app_first_ok)
  next
    case False
    with a b c show ?thesis
      by (cases ok3) (simp_all add: link_into_app_retry)
  qed
qed

lemma cleanup_shape:
  "\<exists>w1 new. (if installed then
               (case rm sys p (emit (Log RemovingInstall) (w, evs)) of
                  (ok, s') \<Rightarrow> if ok then s' else emit (Warn CleanupFailed) s')
             else (w, evs)) = (w1, evs @ new)
      \<and> filter is_app_link new = [] \<and> filter after_linking new = []"
  by (cases "rmSync sys p w") (simp add: rm_def emit_def)

lemma ensure_app_link_shape:
  "\<exists>r w' new.
      ensure_app_link sys wu appDir libDir libName p linked installed (w, evs) = (r, (w', evs @ new))
      \<and> filter after_linking new = []
      \<and> ((r = None
            \<and> (filter is_app_link new = []
               \<or> filter is_app_link new = [Run [''link'', libName] (Some appDir) True]
               \<or> filter is_app_link new = [Run [''link'', libName] (Some appDir) False,
                                           Run [''link'', libName] (Some appDir) True]))
         \<or> (r = Some (CommandFailed [''link'', libName])
            \<and> filter is_app_link new = [Run [''link'', libName] (Some appDir) False,
                                        Run [''link'', libName] (Some appDir) False]
            \<and> (\<exists>pre. new = pre @ [Run [''link'', libName] (Some appDir) False])))"
proof (cases linked)
  case True
  then show ?thesis
    by (simp add: ensure_app_link_def emit_def)
next
  case False
  obtain w1 new1 where s1:
    "(if installed then
        (case rm sys p (emit (Log RemovingInstall) (w, evs)) of
           (ok, s') \<Rightarrow> if ok then s' else emit (Warn CleanupFailed) s')
      else (w, evs)) = (w1, evs @ new1)"
    and n1: "filter is_app_link new1 = []" "filter after_linking new1 = []"
    using cleanup_shape [of installed sys p w evs] by blast
  obtain r w2 new2 where l:
    "link_into_app sys wu appDir libName (w1, evs @ new1) = (r, (w2, (evs @ new1) @ new2))"
    and n2: "filter after_linking new2 = []"
    and sh: "(r = None
            \<and> (filter is_app_link new2 = [Run [''link'', libName] (Some appDir) True]
               \<or> filter is_app_link new2 = [Run [''link'', libName] (Some appDir) False,
                                           Run [''link'', libName] (Some appDir) True]))
         \<or> (r = Some (CommandFailed [''link'', libName])
            \<and> filter is_app_link new2 = [Run [''link'', libName] (Some appDir) False,
                                        Run [''link'', libName] (Some appDir) False]
            \<and> (\<exists>pre. new2 = pre @ [Run [''link'', libName] (Some appDir) False]))"
    using link_into_app_shape [of sys wu appDir libName w1 "evs @ new1"] by blast
  from sh show ?thesis
  proof
    assume ok: "r = None
            \<and> (filter is_app_link new2 = [Run [''link'', libName] (Some appDir) True]
               \<or> filter is_app_link new2 = [Run [''link'', libName] (Some appDir) False,
                                           Run [''link'', libName] (Some appDir) True])"
    let ?v = "if isSymlinkTo sys w2 p libDir then Log Verified else Warn VerificationFailed"
    have "ensure_app_link sys wu appDir libDir libName p linked installed (w, evs)
            = (None, (w2, evs @ (new1 @ new2 @ [?v])))"
      using False s1 l ok by (simp add: ensure_app_link_def emit_def)
    moreover have "filter after_linking (new1 @ new2 @ [?v]) = []"
      using n1 n2 by simp
    moreover have "filter is_app_link (new1 @ new2 @ [?v]) = filter is_app_link new2"
      using n1 by simp
    ultimately show ?thesis using ok by metis
  next
    assume bad: "r = Some (CommandFailed [''link'', libName])
            \<and> filter is_app_link new2 = [Run [''link'', libName] (Some appDir) False,
                                        Run [''link'', libName] (Some appDir) False]
            \<and> (\<exists>pre. new2 = pre @ [Run [''link'', libName] (Some appDir) False])"
    then obtain pre where pre: "new2 = pre @ [Run [''link'', libName] (Some appDir) False]"
      by blast
    have "ensure_app_link sys wu appDir libDir libName p linked installed (w, evs)
            = (Some (CommandFailed [''link'', libName]), (w2, evs @ (new1 @ new2)))"
      using False s1 l bad by (simp add: ensure_app_link_def)
    moreover have "filter after_linking (new1 @ new2) = []"
      using n1 n2 by simp
    moreover have "filter is_app_link (new1 @ new2) = filter is_app_link new2"
      using n1 by simp
    moreover have "new1 @ new2 = (new1 @ pre) @ [Run [''link'', libName] (Some appDir) False]"
      using pre by simp
    ultimately show ?thesis using bad by metis
  qed
qed

lemma ensure_global_index_shape:
  "\<exists>r wg new. ensure_global_index sys libDir g (w, evs) = (r, (wg, evs @ new))
      \<and> filter is_app_link new = [] \<and> filter after_linking new = []
      \<and> (r = None \<or> r = Some (CommandFailed [''link'']))"
  by (cases "spawnSync sys [''link''] (Some libDir) w")
     (simp add: ensure_global_index_def run_def emit_def)

lemma ensure_global_part000_shape:
  "\<exists>wg new. ensure_global_part000 sys libDir (w, evs) = (wg, evs @ new)
      \<and> filter is_app_link new = [] \<and> filter after_linking new = []"
  by (cases "spawnSync sys [''link''] (Some libDir) w")
     (simp add: ensure_global_part000_def run_def emit_def)

lemma warn_and_watch_shape:
  "\<exists>new. warn_and_watch sys appPkg libPkg libDir doWatch (w, evs) = (w, evs @ new)
      \<and> filter is_app_link new = [] \<and> filter is_action new = []"
  by (simp add: warn_and_watch_def emit_def Let_def filter_map o_def)

lemma after_app_link_shape:
  assumes e: "ensure_app_link sys wu appDir libDir libName p linked installed (w1, evs @ new1)
                = (r, (w2, (evs @ new1) @ new2))"
    and n1: "filter is_app_link new1 = []" "filter after_linking new1 = []"
    and n2: "filter after_linking new2 = []"
    and sh: "(r = None
            \<and> (filter is_app_link new2 = []
               \<or> filter is_app_link new2 = [Run [''link'', libName] (Some appDir) True]
               \<or> filter is_app_link new2 = [Run [''link'', libName] (Some appDir) False,
                                           Run [''link'', libName] (Some appDir) True]))
         \<or> (r = Some (CommandFailed [''link'', libName])
            \<and> filter is_app_link new2 = [Run [''link'', libName] (Some appDir) False,
                                        Run [''link'', libName] (Some appDir) False]
            \<and> (\<exists>pre. new2 = pre @ [Run [''link'', libName] (Some appDir) False]))"
  shows "\<exists>r' w' new.
      (case ensure_app_link sys wu appDir libDir libName p linked installed (w1, evs @ new1) of
         (Some f, s3) \<Rightarrow> (Some f, s3)
       | (None, s3) \<Rightarrow> (None, warn_and_watch sys appPkg libPkg libDir doWatch s3))
        = (r', (w', evs @ new)) \<and> flow_shape libName appDir r' new"
  using sh
proof
  assume ok: "r = None
            \<and> (filter is_app_link new2 = []
               \<or> filter is_app_link new2 = [Run [''link'', libName] (Some appDir) True]
               \<or> filter is_app_link new2 = [Run [''link'', libName] (Some appDir) False,
                                           Run [''link'', libName] (Some appDir) True])"
  obtain ww where ww: "warn_and_watch sys appPkg libPkg libDir doWatch (w2, (evs @ new1) @ new2)
       = (w2, ((evs @ new1) @ new2) @ ww)" and nw: "filter is_app_link ww = []"
    using warn_and_watch_shape [of sys appPkg libPkg libDir doWatch w2 "(evs @ new1) @ new2"]
    by blast
  have "(case ensure_app_link sys wu appDir libDir libName p linked installed (w1, evs @ new1) of
         (Some f, s3) \<Rightarrow> (Some f, s3)
       | (None, s3) \<Rightarrow> (None, warn_and_watch sys appPkg libPkg libDir doWatch s3))
        = (None, (w2, evs @ (new1 @ new2 @ ww)))"
    using e ok ww by simp
  moreover have "flow_shape libName appDir None (new1 @ new2 @ ww)"
    using ok n1 nw by (auto simp: flow_shape_def)
  ultimately show ?thesis by blast
next
  assume bad: "r = Some (CommandFailed [''link'', libName])
            \<and> filter is_app_link new2 = [Run [''link'', libName] (Some appDir) False,
                                        Run [''link'', libName] (Some appDir) False]
            \<and> (\<exists>pre. new2 = pre @ [Run [''link'', libName] (Some appDir) False])"
  have "(case ensure_app_link sys wu appDir libDir libName p linked installed (w1, evs @ new1) of
         (Some f, s3) \<Rightarrow> (Some f, s3)
       | (None, s3) \<Rightarrow> (None, warn_and_watch sys appPkg libPkg libDir doWatch s3))
        = (Some (CommandFailed [''link'', libName]), (w2, evs @ (new1 @ new2)))"
    using e bad by simp
  moreover have "flow_shape libName appDir (Some (CommandFailed [''link'', libName])) (new1 @ new2)"
    using bad n1 n2 by (auto simp: flow_shape_def)
  ultimately show ?thesis by blast
qed

lemma link_flow_part000_shape:
  "\<exists>r w' new. link_flow_part000 sys appDir libDir appPkg libPkg libName p doWatch (w, evs)
        = (r, (w', evs @ new)) \<and> flow_shape libName appDir r new"
proof -
  let ?linked = "isSymlinkTo sys w p libDir"
  let ?installed = "existsSync sys w p \<and> \<not> ?linked"
  let ?st = "Log (Status None (if ?linked then AppLinked
                   else if ?installed then AppInstalled else AppAbsent))"
  obtain wg newg where g:
    "ensure_global_part000 sys libDir (w, evs @ [?st]) = (wg, (evs @ [?st]) @ newg)"
    and ng: "filter is_app_link newg = []" "filter after_linking newg = []"
    using ensure_global_part000_shape [of sys libDir w "evs @ [?st]"] by blast
  obtain r w2 new2 where e:
    "ensure_app_link sys False appDir libDir libName p ?linked ?installed (wg, evs @ ([?st] @ newg))
       = (r, (w2, (evs @ ([?st] @ newg)) @ new2))"
    and n2: "filter after_linking new2 = []"
    and sh: "(r = None
            \<and> (filter is_app_link new2 = []
               \<or> filter is_app_link new2 = [Run [''link'', libName] (Some appDir) True]
               \<or> filter is_app_link new2 = [Run [''link'', libName] (Some appDir) False,
                                           Run [''link'', libName] (Some appDir) True]))
         \<or> (r = Some (CommandFailed [''link'', libName])
            \<and> filter is_app_link new2 = [Run [''link'', libName] (Some appDir) False,
                                        Run [''link'', libName] (Some appDir) False]
            \<and> (\<exists>pre. new2 = pre @ [Run [''link'', libName] (Some appDir) False]))"
    using ensure_app_link_shape [of sys False appDir libDir libName p ?linked ?installed wg
        "evs @ ([?st] @ newg)"] by blast
  have n1: "filter is_app_link ([?st] @ newg) = []" "filter after_linking ([?st] @ newg) = []"
    using ng by simp_all
  have "link_flow_part000 sys appDir libDir appPkg libPkg libName p doWatch (w, evs)
      = (case ensure_app_link sys False appDir libDir libName p ?linked ?installed
                (wg, evs @ ([?st] @ newg)) of
           (Some f, s3) \<Rightarrow> (Some f, s3)
         | (None, s3) \<Rightarrow> (None, warn_and_watch sys appPkg libPkg libDir doWatch s3))"
    unfolding link_flow_part000_def Let_def emit_def fst_conv snd_conv
    using g by (simp split del: if_split)
  then show ?thesis
    using after_app_link_shape [OF e n1 n2 sh, of appPkg libPkg doWatch] by simp
qed

lemma link_flow_index_shape:
  "\<exists>r w' new. link_flow_index sys appDir libDir appPkg libPkg libName p gp doWatch (w, evs)
        = (r, (w', evs @ new)) \<and> flow_shape libName appDir r new"
proof -
  let ?glinked = "isSymlinkTo sys w gp libDir"
  let ?linked = "isSymlinkTo sys w p libDir"
  let ?installed = "existsSync sys w p \<and> \<not> ?linked"
  let ?st = "Log (Status
                  (Some (if ?glinked then GlobalLinked
                         else if existsSync sys w gp then GlobalElsewhere
                         else GlobalAbsent))
                  (if ?linked then AppLinked
                   else if ?installed then AppInstalled else AppAbsent))"
  obtain rg wg newg where g:
    "ensure_global_index sys libDir ?glinked (w, evs @ [?st]) = (rg, (wg, (evs @ [?st]) @ newg))"
    and ng: "filter is_app_link newg = []" "filter after_linking newg = []"
    and rg: "rg = None \<or> rg = Some (CommandFailed [''link''])"
    using ensure_global_index_shape [of sys libDir ?glinked w "evs @ [?st]"] by blast
  have n1: "filter is_app_link ([?st] @ newg) = []" "filter after_linking ([?st] @ newg) = []"
    using ng by simp_all
  from rg show ?thesis
  proof
    assume none: "rg = None"
    obtain r w2 new2 where e:
      "ensure_app_link sys True appDir libDir libName p ?linked ?installed (wg, evs @ ([?st] @ newg))
         = (r, (w2, (evs @ ([?st] @ newg)) @ new2))"
      and n2: "filter after_linking new2 = []"
      and sh: "(r = None
            \<and> (filter is_app_link new2 = []
               \<or> filter is_app_link new2 = [Run [''link'', libName] (Some appDir) True]
               \<or> filter is_app_link new2 = [Run [''link'', libName] (Some appDir) False,
                                           Run [''link'', libName] (Some appDir) True]))
         \<or> (r = Some (CommandFailed [''link'', libName])
            \<and> filter is_app_link new2 = [Run [''link'', libName] (Some appDir) False,
                                        Run [''link'', libName] (Some appDir) False]
            \<and> (\<exists>pre. new2 = pre @ [Run [''link'', libName] (Some appDir) False]))"
      using ensure_app_link_shape [of sys True appDir libDir libName p ?linked ?installed wg
          "evs @ ([?st] @ newg)"] by blast
    have "link_flow_index sys appDir libDir appPkg libPkg libName p gp doWatch (w, evs)
      = (case ensure_app_link sys True appDir libDir libName p ?linked ?installed
                (wg, evs @ ([?st] @ newg)) of
           (Some f, s3) \<Rightarrow> (Some f, s3)
         | (None, s3) \<Rightarrow> (None, warn_and_watch sys appPkg libPkg libDir doWatch s3))"
      unfolding link_flow_index_def Let_def emit_def fst_conv snd_conv
      using g none by (simp split del: if_split)
    then show ?thesis
      using after_app_link_shape [OF e n1 n2 sh, of appPkg libPkg doWatch] by simp
  next
    assume bad: "rg = Some (CommandFailed [''link''])"
    have "link_flow_index sys appDir libDir appPkg libPkg libName p gp doWatch (w, evs)
      = (Some (CommandFailed [''link'']), (wg, evs @ ([?st] @ newg)))"
      unfolding link_flow_index_def Let_def emit_def fst_conv snd_conv
      using g bad by (simp split del: if_split)
    moreover have "flow_shape libName appDir (Some (CommandFailed [''link''])) ([?st] @ newg)"
      using n1 by (simp add: flow_shape_def)
    ultimately show ?thesis by blast
  qed
qed

lemma restore_app_shape:
  "\<exists>r w' new. restore_app sys appDir appPkg libName (w, evs) = (r, (w', evs @ new))
      \<and> filter is_app_link new = [] \<and> filter is_rm new = []
      \<and> r \<noteq> Some (CommandFailed [''link'', libName])"
proof -
  obtain ok1 w1 where a: "spawnSync sys [''unlink'', libName] (Some appDir) w = (ok1, w1)"
    by (cases "spawnSync sys [''unlink'', libName] (Some appDir) w")
  show ?thesis
  proof (cases "installArgs_try (semver_lib sys) appPkg libName")
    case (Inl f)
    then have "f = TypeError"
      by (auto simp: installArgs_try_cases split: jsval.splits)
    with a Inl show ?thesis
      by (simp add: restore_app_def run_def emit_def Let_def)
  next
    case (Inr args)
    obtain ok2 w2 where b: "spawnSync sys args (Some appDir) w1 = (ok2, w2)"
      by (cases "spawnSync sys args (Some appDir) w1")
    have "length args \<noteq> 2"
      using installArgs_length [OF Inr] by simp
    with a b Inr show ?thesis
      by (auto simp: restore_app_def run_def emit_def Let_def)
  qed
qed

lemma remove_global_index_shape:
  "\<exists>w' new. remove_global_index sys appDir libName gp (w, evs) = (w', evs @ new)
      \<and> filter is_app_link new = []"
proof -
  obtain ok1 w1 where a: "spawnSync sys [''unlink'', ''-g'', libName] (Some appDir) w = (ok1, w1)"
    by (cases "spawnSync sys [''unlink'', ''-g'', libName] (Some appDir) w")
  obtain ok2 w2 where b: "rmSync sys gp w1 = (ok2, w2)"
    by (cases "rmSync sys gp w1")
  from a b show ?thesis
    by (simp add: remove_global_index_def run_def rm_def emit_def Let_def)
qed

lemma remove_global_part000_shape:
  "\<exists>w' new. remove_global_part000 sys libName (w, evs) = (w', evs @ new)
      \<and> filter is_app_link new = [] \<and> filter is_rm new = []"
  by (cases "spawnSync sys [''unlink'', ''-g'', libName] None w")
     (simp add: remove_global_part000_def run_def emit_def Let_def)

lemma unlink_flow_index_shape:
  "\<exists>r w' new. unlink_flow_index sys appDir appPkg libName gp doUnlinkGlobal (w, evs)
        = (r, (w', evs @ new)) \<and> flow_shape libName appDir r new"
proof -
  obtain r w1 new1 where a: "restore_app sys appDir appPkg libName (w, evs) = (r, (w1, evs @ new1))"
    and n1: "filter is_app_link new1 = []"
    and r: "r \<noteq> Some (CommandFailed [''link'', libName])"
    using restore_app_shape [of sys appDir appPkg libName w evs] by blast
  obtain w2 new2 where b:
    "remove_global_index sys appDir libName gp (w1, evs @ new1) = (w2, (evs @ new1) @ new2)"
    and n2: "filter is_app_link new2 = []"
    using remove_global_index_shape [of sys appDir libName gp w1 "evs @ new1"] by blast
  show ?thesis
  proof (cases r)
    case None
    with a b n1 n2 show ?thesis
      by (cases doUnlinkGlobal) (simp_all add: unlink_flow_index_def flow_shape_def)
  next
    case (Some f)
    with a n1 r show ?thesis
      by (simp add: unlink_flow_index_def flow_shape_def)
  qed
qed

lemma unlink_flow_part000_shape:
  "\<exists>r w' new. unlink_flow_part000 sys appDir appPkg libName doUnlinkGlobal (w, evs)
        = (r, (w', evs @ new)) \<and> flow_shape libName appDir r new"
proof -
  obtain r w1 new1 where a: "restore_app sys appDir appPkg libName (w, evs) = (r, (w1, evs @ new1))"
    and n1: "filter is_app_link new1 = []"
    and r: "r \<noteq> Some (CommandFailed [''link'', libName])"
    using restore_app_shape [of sys appDir appPkg libName w evs] by blast
  obtain w2 new2 where b:
    "remove_global_part000 sys libName (w1, evs @ new1) = (w2, (evs @ new1) @ new2)"
    and n2: "filter is_app_link new2 = []"
    using remove_global_part000_shape [of sys libName w1 "evs @ new1"] by blast
  show ?thesis
  proof (cases r)
    case None
    with a b n1 n2 show ?thesis
      by (cases doUnlinkGlobal) (simp_all add: unlink_flow_part000_def flow_shape_def)
  next
    case (Some f)
    with a n1 r show ?thesis
      by (simp add: unlink_flow_part000_def flow_shape_def)
  qed
qed

lemma body_index_shape:
  "\<exists>r w' new libName appDir. body_index sys args (w, []) = (r, (w', new))
      \<and> flow_shape libName appDir r new"
proof (cases "load_manifests sys w (cwd sys)
                (path_resolve sys (cwd sys) (strip_trailing_seps (hd args)))")
  case (Inl f)
  then have "body_index sys args (w, []) = (Some f, (w, []))"
    by (simp add: body_index_def Let_def)
  moreover have "flow_shape (''-'') (cwd sys) (Some f) [] \<or> flow_shape [] (cwd sys) (Some f) []"
    by (auto simp: flow_shape_def)
  ultimately show ?thesis by metis
next
  case (Inr t)
  obtain appPkg libPkg libName where t: "t = (appPkg, libPkg, libName)"
    by (cases t)
  show ?thesis
  proof (cases "npmRootGlobal sys w")
    case None
    with Inr t have "body_index sys args (w, [])
        = (Some (CommandFailed [''config'', ''get'', ''prefix'']), (w, []))"
      by (simp add: body_index_def Let_def)
    moreover have "flow_shape libName (cwd sys) (Some (CommandFailed [''config'', ''get'', ''prefix''])) []"
      by (simp add: flow_shape_def)
    ultimately show ?thesis by metis
  next
    case (Some globalRoot)
    show ?thesis
    proof (cases "''--unlink'' \<in> set args")
      case True
      with Inr t Some have "body_index sys args (w, [])
          = unlink_flow_index sys (cwd sys) appPkg libName (path_join sys [globalRoot, libName])
              (''--unlink-global'' \<in> set args) (w, [])"
        by (simp add: body_index_def Let_def)
      then show ?thesis
        using unlink_flow_index_shape [of sys "cwd sys" appPkg libName
            "path_join sys [globalRoot, libName]" "''--unlink-global'' \<in> set args" w "[]"]
        by (metis append_Nil)
    next
      case False
      with Inr t Some have "body_index sys args (w, [])
          = link_flow_index sys (cwd sys)
              (path_resolve sys (cwd sys) (strip_trailing_seps (hd args))) appPkg libPkg libName
              (path_join sys [cwd sys, ''node_modules'', libName])
              (path_join sys [globalRoot, libName]) (''--watch'' \<in> set args) (w, [])"
        by (simp add: body_index_def Let_def)
      then show ?thesis
        using link_flow_index_shape [of sys "cwd sys"
            "path_resolve sys (cwd sys) (strip_trailing_seps (hd args))" appPkg libPkg libName
            "path_join sys [cwd sys, ''node_modules'', libName]"
            "path_join sys [globalRoot, libName]" "''--watch'' \<in> set args" w "[]"]
        by (metis append_Nil)
    qed
  qed
qed

lemma body_part000_shape:
  "\<exists>r w' new libName appDir. body_part000 sys args (w, []) = (r, (w', new))
      \<and> flow_shape libName appDir r new"
proof (cases "load_manifests sys w (path_resolve sys (cwd sys) (args ! 0))
                (path_resolve sys (cwd sys) (args ! 1))")
  case (Inl f)
  then have "body_part000 sys args (w, []) = (Some f, (w, []))"
    by (simp add: body_part000_def Let_def)
  moreover have "flow_shape (''-'') (cwd sys) (Some f) [] \<or> flow_shape [] (cwd sys) (Some f) []"
    by (auto simp: flow_shape_def)
  ultimately show ?thesis by metis
next
  case (Inr t)
  obtain appPkg libPkg libName where t: "t = (appPkg, libPkg, libName)"
    by (cases t)
  show ?thesis
  proof (cases "''--unlink'' \<in> set args")
    case True
    with Inr t have "body_part000 sys args (w, [])
        = unlink_flow_part000 sys (path_resolve sys (cwd sys) (args ! 0)) appPkg libName
            (''--unlink-global'' \<in> set args) (w, [])"
      by (simp add: body_part000_def Let_def)
    then show ?thesis
      using unlink_flow_part000_shape [of sys "path_resolve sys (cwd sys) (args ! 0)" appPkg
          libName "''--unlink-global'' \<in> set args" w "[]"]
      by (metis append_Nil)
  next
    case False
    with Inr t have "body_part000 sys args (w, [])
        = link_flow_part000 sys (path_resolve sys (cwd sys) (args ! 0))
            (path_resolve sys (cwd sys) (args ! 1)) appPkg libPkg libName
            (path_join sys [path_resolve sys (cwd sys) (args ! 0), ''node_modules'', libName])
            (''--watch'' \<in> set args) (w, [])"
      by (simp add: body_part000_def Let_def)
    then show ?thesis
      using link_flow_part000_shape [of sys "path_resolve sys (cwd sys) (args ! 0)"
          "path_resolve sys (cwd sys) (args ! 1)" appPkg libPkg libName
          "path_join sys [path_resolve sys (cwd sys) (args ! 0), ''node_modules'', libName]"
          "''--watch'' \<in> set args" w "[]"]
      by (metis append_Nil)
  qed
qed

text \<open>What \<open>flow_shape\<close> gives for the outcome of the process.\<close>

lemma conclude_attempts:
  assumes "flow_shape libName appDir r new"
  shows "length (filter is_app_link (events (conclude (r, (w', new))))) \<le> 2"
  using assms by (auto simp: flow_shape_def conclude_def split: option.splits if_splits)

lemma conclude_two_failures:
  assumes "flow_shape libName appDir r new"
    and "filter is_app_link (events (conclude (r, (w', new)))) = [Run a d False, Run a' d' False]"
  shows "exit_code (conclude (r, (w', new))) = 1
         \<and> filter after_linking (events (conclude (r, (w', new)))) = []
         \<and> events (conclude (r, (w', new)))
             = butlast new @ [Run a' d' False, Error (CommandFailed a')]"
proof (cases r)
  case None
  with assms show ?thesis
    by (auto simp: flow_shape_def conclude_def)
next
  case (Some f)
  show ?thesis
  proof (cases "f = CommandFailed [''link'', libName]")
    case True
    with Some assms(1) have sh:
      "filter is_app_link new = [Run [''link'', libName] (Some appDir) False,
                                 Run [''link'', libName] (Some appDir) False]"
      "filter after_linking new = []" "new \<noteq> []"
      "last new = Run [''link'', libName] (Some appDir) False"
      by (simp_all add: flow_shape_def)
    from Some True assms(2) sh(1) have eq: "a' = [''link'', libName]" "d' = Some appDir"
      by (auto simp: conclude_def)
    have "new = butlast new @ [last new]"
      using sh(3) by simp
    with sh(4) have "new = butlast new @ [Run [''link'', libName] (Some appDir) False]"
      by simp
    then have "new @ [Error (CommandFailed [''link'', libName])]
        = butlast new @ [Run [''link'', libName] (Some appDir) False,
                         Error (CommandFailed [''link'', libName])]"
      by (metis append.assoc append_Cons append_Nil)
    with Some True sh(2) eq show ?thesis
      by (simp add: conclude_def)
  next
    case False
    with Some assms show ?thesis
      by (simp add: flow_shape_def conclude_def)
  qed
qed

lemma main_index_attempts:
  "length (filter is_app_link (events (main_index sys args w))) \<le> 2"
proof (cases "length args < 1")
  case True
  then show ?thesis by (simp add: main_index_def)
next
  case False
  obtain r w' new libName appDir where
    "body_index sys args (w, []) = (r, (w', new))" "flow_shape libName appDir r new"
    using body_index_shape [of sys args w] by blast
  with False show ?thesis
    using conclude_attempts [of libName appDir r new w'] by (simp add: main_index_def)
qed

lemma main_part000_attempts:
  "length (filter is_app_link (events (main_part000 sys args w))) \<le> 2"
proof (cases "length args < 2")
  case True
  then show ?thesis by (simp add: main_part000_def)
next
  case False
  obtain r w' new libName appDir where
    "body_part000 sys args (w, []) = (r, (w', new))" "flow_shape libName appDir r new"
    using body_part000_shape [of sys args w] by blast
  with False show ?thesis
    using conclude_attempts [of libName appDir r new w'] by (simp add: main_part000_def)
qed

lemma main_index_two_failures:
  assumes "filter is_app_link (events (main_index sys args w)) = [Run a d False, Run a' d' False]"
  shows "exit_code (main_index sys args w) = 1
         \<and> filter after_linking (events (main_index sys args w)) = []
         \<and> (\<exists>pre. events (main_index sys args w)
               = pre @ [Run a' d' False, Error (CommandFailed a')])"
proof (cases "length args < 1")
  case True
  with assms show ?thesis by (simp add: main_index_def)
next
  case False
  obtain r w' new libName appDir where
    b: "body_index sys args (w, []) = (r, (w', new))" and sh: "flow_shape libName appDir r new"
    using body_index_shape [of sys args w] by blast
  from False b have m: "main_index sys args w = conclude (r, (w', new))"
    by (simp add: main_index_def)
  show ?thesis
    using conclude_two_failures [OF sh, of w' a d a' d'] assms unfolding m by blast
qed

lemma main_part000_two_failures:
  assumes "filter is_app_link (events (main_part000 sys args w)) = [Run a d False, Run a' d' False]"
  shows "exit_code (main_part000 sys args w) = 1
         \<and> filter after_linking (events (main_part000 sys args w)) = []
         \<and> (\<exists>pre. events (main_part000 sys args w)
               = pre @ [Run a' d' False, Error (CommandFailed a')])"
proof (cases "length args < 2")
  case True
  with assms show ?thesis by (simp add: main_part000_def)
next
  case False
  obtain r w' new libName appDir where
    b: "body_part000 sys args (w, []) = (r, (w', new))" and sh: "flow_shape libName appDir r new"
    using body_part000_shape [of sys args w] by blast
  from False b have m: "main_part000 sys args w = conclude (r, (w', new))"
    by (simp add: main_part000_def)
  show ?thesis
    using conclude_two_failures [OF sh, of w' a d a' d'] assms unfolding m by blast
qed
section \<open>Linking into the application: one recovery cycle\<close>

text \<open>
  C5. The step that links the library into the application (both files; \<open>wu\<close> tells
  them apart) makes one attempt when the first link command succeeds. When it fails, the
  step runs the unlink command, whose own failure changes nothing but a warning in the
  first file, and then the link command once more; the step fails exactly when this
  second attempt fails. For every run of either \<^verbatim>\<open>main\<close>, whatever the arguments and the
  environment: at most two link commands are issued for the application; and when two
  were issued and both failed, the exit code is 1, the trace ends with the second
  failed command followed by the error report, and neither the peer-dependency warnings
  nor the watcher appear in it.
\<close>

theorem single_recovery_cycle:
  "(\<forall>w1. spawnSync sys [''link'', libName] (Some appDir) w0 = (True, w1)
      \<longrightarrow> link_into_app sys wu appDir libName (w0, evs)
            = (None, (w1, evs @ [Log LinkingApp, Run [''link'', libName] (Some appDir) True])))
   \<and> (\<forall>w1 ok2 w2 ok3 w3.
         spawnSync sys [''link'', libName] (Some appDir) w0 = (False, w1)
         \<and> spawnSync sys [''unlink'', libName] (Some appDir) w1 = (ok2, w2)
         \<and> spawnSync sys [''link'', libName] (Some appDir) w2 = (ok3, w3)
      \<longrightarrow> link_into_app sys wu appDir libName (w0, evs)
            = (if ok3 then None else Some (CommandFailed [''link'', libName]),
               (w3, evs @ [Log LinkingApp, Run [''link'', libName] (Some appDir) False,
                           Warn FirstAttemptFailed, Run [''unlink'', libName] (Some appDir) ok2]
                      @ (if \<not> ok2 \<and> wu then [Warn AppUnlinkFailed] else [])
                      @ [Run [''link'', libName] (Some appDir) ok3])))
   \<and> length (filter is_app_link (events (main_index sys args w))) \<le> 2
   \<and> length (filter is_app_link (events (main_part000 sys args w))) \<le> 2
   \<and> (\<forall>a d a' d'.
         filter is_app_link (events (main_index sys args w)) = [Run a d False, Run a' d' False]
      \<longrightarrow> exit_code (main_index sys args w) = 1
          \<and> filter after_linking (events (main_index sys args w)) = []
          \<and> (\<exists>pre. events (main_index sys args w)
                = pre @ [Run a' d' False, Error (CommandFailed a')]))
   \<and> (\<forall>a d a' d'.
         filter is_app_link (events (main_part000 sys args w)) = [Run a d False, Run a' d' False]
      \<longrightarrow> exit_code (main_part000 sys args w) = 1
          \<and> filter after_linking (events (main_part000 sys args w)) = []
          \<and> (\<exists>pre. events (main_part000 sys args w)
                = pre @ [Run a' d' False, Error (CommandFailed a')]))"
  using link_into_app_first_ok [of sys libName appDir w0 _ wu evs]
    link_into_app_retry [of sys libName appDir w0 _ _ _ _ _ wu evs]
    main_index_attempts [of sys args w] main_part000_attempts [of sys args w]
    main_index_two_failures [of sys args w] main_part000_two_failures [of sys args w]
  by blast

lemma fake_failed_run_index:
  "main_index fake_sys [''../lib''] (fake_state fresh_nodes [True, False, False, False])
     = \<lparr>exit_code = 1,
        events =
          [Log (Status (Some GlobalAbsent) AppAbsent), Log CreatingGlobal,
           Run [''link''] (Some ''/work/lib'') True, Log GlobalReady, Log LinkingApp,
           Run [''link'', ''widgets''] (Some ''/work/app'') False, Warn FirstAttemptFailed,
           Run [''unlink'', ''widgets''] (Some ''/work/app'') False, Warn AppUnlinkFailed,
           Run [''link'', ''widgets''] (Some ''/work/app'') False,
           Error (CommandFailed [''link'', ''widgets''])],
        world = fake_state ((''/usr/local/node_modules/widgets'', Link ''/work/lib'') # fresh_nodes) []\<rparr>"
  by code_simp

lemma fake_failed_run_part000:
  "main_part000 fake_sys [''/work/app'', ''../lib''] (fake_state fresh_nodes [True, False, False, False])
     = \<lparr>exit_code = 1,
        events =
          [Log (Status None AppAbsent), Log CreatingGlobal,
           Run [''link''] (Some ''/work/lib'') True, Log GlobalReady, Log LinkingApp,
           Run [''link'', ''widgets''] (Some ''/work/app'') False, Warn FirstAttemptFailed,
           Run [''unlink'', ''widgets''] (Some ''/work/app'') False,
           Run [''link'', ''widgets''] (Some ''/work/app'') False,
           Error (CommandFailed [''link'', ''widgets''])],
        world = fake_state ((''/usr/local/node_modules/widgets'', Link ''/work/lib'') # fresh_nodes) []\<rparr>"
  by code_simp

lemma fake_spawn_scripted:
  "spawnSync fake_sys [''link'', ''widgets''] (Some ''/work/app'') (fake_state fresh_nodes [False, False, True])
     = (False, fake_state fresh_nodes [False, True])"
  "spawnSync fake_sys [''unlink'', ''widgets''] (Some ''/work/app'') (fake_state fresh_nodes [False, True])
     = (False, fake_state fresh_nodes [True])"
  "spawnSync fake_sys [''link'', ''widgets''] (Some ''/work/app'') (fake_state fresh_nodes [True])
     = (True, fake_state ((''/work/app/node_modules/widgets'', Link ''/usr/local/node_modules/widgets'') # fresh_nodes) [])"
  by code_simp+

lemma fake_retry_block:
  "link_into_app fake_sys True ''/work/app'' ''widgets''
        (fake_state fresh_nodes [False, False, True], [])
     = (None,
        (fake_state ((''/work/app/node_modules/widgets'', Link ''/usr/local/node_modules/widgets'')
                      # fresh_nodes) [],
         [Log LinkingApp, Run [''link'', ''widgets''] (Some ''/work/app'') False,
          Warn FirstAttemptFailed, Run [''unlink'', ''widgets''] (Some ''/work/app'') False,
          Warn AppUnlinkFailed, Run [''link'', ''widgets''] (Some ''/work/app'') True]))"
  by code_simp

theorem single_recovery_cycle_witness:
  "spawnSync fake_sys [''link'', ''widgets''] (Some ''/work/app'')
      (fake_state fresh_nodes [False, False, True])
     = (False, fake_state fresh_nodes [False, True])
   \<and> link_into_app fake_sys True ''/work/app'' ''widgets''
        (fake_state fresh_nodes [False, False, True], [])
     = (None,
        (fake_state ((''/work/app/node_modules/widgets'', Link ''/usr/local/node_modules/widgets'')
                      # fresh_nodes) [],
         [Log LinkingApp, Run [''link'', ''widgets''] (Some ''/work/app'') False,
          Warn FirstAttemptFailed, Run [''unlink'', ''widgets''] (Some ''/work/app'') False,
          Warn AppUnlinkFailed, Run [''link'', ''widgets''] (Some ''/work/app'') True]))
   \<and> filter is_app_link (events (main_index fake_sys [''../lib'']
        (fake_state fresh_nodes [True, False, False, False])))
     = [Run [''link'', ''widgets''] (Some ''/work/app'') False,
        Run [''link'', ''widgets''] (Some ''/work/app'') False]
   \<and> exit_code (main_index fake_sys [''../lib'']
        (fake_state fresh_nodes [True, False, False, False])) = 1
   \<and> filter is_app_link (events (main_part000 fake_sys [''/work/app'', ''../lib'']
        (fake_state fresh_nodes [True, False, False, False])))
     = [Run [''link'', ''widgets''] (Some ''/work/app'') False,
        Run [''link'', ''widgets''] (Some ''/work/app'') False]
   \<and> exit_code (main_part000 fake_sys [''/work/app'', ''../lib'']
        (fake_state fresh_nodes [True, False, False, False])) = 1"
  using
    single_recovery_cycle [of fake_sys "''widgets''" "''/work/app''"
      "fake_state fresh_nodes [False, False, True]" True "[]" "[''../lib'']"
      "fake_state fresh_nodes [True, False, False, False]"]
    single_recovery_cycle [of fake_sys "''widgets''" "''/work/app''"
      "fake_state fresh_nodes [False, False, True]" True "[]" "[''/work/app'', ''../lib'']"
      "fake_state fresh_nodes [True, False, False, False]"]
  by (simp add: fake_spawn_scripted fake_retry_block fake_failed_run_index fake_failed_run_part000)
section \<open>The link-state detector\<close>



section \<open>Ensuring the global link\<close>

lemma fst_of_last_step:
  "(case r of (Some f, s') \<Rightarrow> Some f | (None, s') \<Rightarrow> None) = fst r"
  by (simp split: prod.splits option.splits)

lemma link_flow_part000_result:
  "fst (link_flow_part000 sys appDir libDir appPkg libPkg libName p doWatch s) = None
   \<or> fst (link_flow_part000 sys appDir libDir appPkg libPkg libName p doWatch s)
       = Some (CommandFailed [''link'', libName])"
proof -
  let ?linked = "isSymlinkTo sys (fst s) p libDir"
  let ?installed = "existsSync sys (fst s) p \<and> \<not> ?linked"
  let ?s2 = "ensure_global_part000 sys libDir
      (emit (Log (Status None (if ?linked then AppLinked
                   else if ?installed then AppInstalled else AppAbsent))) s)"
  have "fst (link_flow_part000 sys appDir libDir appPkg libPkg libName p doWatch s)
      = fst (ensure_app_link sys False appDir libDir libName p ?linked ?installed ?s2)"
    unfolding link_flow_part000_def Let_def fst_after_step fst_conv fst_of_last_step ..
  moreover have "fst (ensure_app_link sys False appDir libDir libName p ?linked ?installed ?s2) = None
      \<or> fst (ensure_app_link sys False appDir libDir libName p ?linked ?installed ?s2)
          = Some (CommandFailed [''link'', libName])"
    using ensure_app_link_shape [of sys False appDir libDir libName p ?linked ?installed
        "fst ?s2" "snd ?s2"]
    by auto
  ultimately show ?thesis by simp
qed

lemma ensure_global_part000_failed:
  "spawnSync sys [''link''] (Some libDir) w = (False, w1) \<Longrightarrow>
     ensure_global_part000 sys libDir (w, evs)
       = (w1, evs @ [Log CreatingGlobal, Run [''link''] (Some libDir) False, Warn GlobalLinkError])"
  by (simp add: ensure_global_part000_def run_def emit_def)

lemma link_flow_part000_continues:
  assumes "spawnSync sys [''link''] (Some libDir) w = (False, w1)"
  shows "link_flow_part000 sys appDir libDir appPkg libPkg libName p doWatch (w, evs)
       = (case ensure_app_link sys False appDir libDir libName p (isSymlinkTo sys w p libDir)
                 (existsSync sys w p \<and> \<not> isSymlinkTo sys w p libDir)
                 (w1, evs @ [Log (Status None
                               (if isSymlinkTo sys w p libDir then AppLinked
                                else if existsSync sys w p \<and> \<not> isSymlinkTo sys w p libDir
                                then AppInstalled else AppAbsent)),
                             Log CreatingGlobal, Run [''link''] (Some libDir) False,
                             Warn GlobalLinkError]) of
            (Some f, s3) \<Rightarrow> (Some f, s3)
          | (None, s3) \<Rightarrow> (None, warn_and_watch sys appPkg libPkg libDir doWatch s3))"
  unfolding link_flow_part000_def Let_def emit_def fst_conv snd_conv
  using ensure_global_part000_failed [OF assms]
  by (simp split del: if_split)

lemma link_flow_index_global_failed:
  assumes "\<not> isSymlinkTo sys w gp libDir"
    and "spawnSync sys [''link''] (Some libDir) w = (False, w1)"
  shows "link_flow_index sys appDir libDir appPkg libPkg libName p gp doWatch (w, evs)
       = (Some (CommandFailed [''link'']),
          (w1, evs @ [Log (Status
                        (Some (if existsSync sys w gp then GlobalElsewhere else GlobalAbsent))
                        (if isSymlinkTo sys w p libDir then AppLinked
                         else if existsSync sys w p \<and> \<not> isSymlinkTo sys w p libDir
                         then AppInstalled else AppAbsent)),
                      Log CreatingGlobal, Run [''link''] (Some libDir) False]))"
  unfolding link_flow_index_def Let_def emit_def fst_conv snd_conv
  using assms by (simp add: ensure_global_index_def run_def emit_def split del: if_split)

lemma ensure_global_index_skipped:
  "ensure_global_index sys libDir True (w, evs) = (None, (w, evs @ [Log GlobalAlreadySet]))"
  by (simp add: ensure_global_index_def emit_def)

text \<open>
  C6, as amended. In \<^verbatim>\<open>src/unnamed/part_000\<close> the command that ensures the global link
  always runs and its failure is advisory: a warning is logged, the flow goes on to the
  step that links the application, and the flow can only fail with the failure of that
  later step. In \<^verbatim>\<open>src/index.js\<close> the command runs only when the detector did not find
  the global link (otherwise the step is skipped without a command), and its failure is
  fatal: the flow throws right after the command and the exit code is 1.
\<close>

theorem global_link_failure:
  "(\<forall>w1. spawnSync sys [''link''] (Some libDir) w = (False, w1)
      \<longrightarrow> ensure_global_part000 sys libDir (w, evs)
            = (w1, evs @ [Log CreatingGlobal, Run [''link''] (Some libDir) False,
                          Warn GlobalLinkError])
          \<and> link_flow_part000 sys appDir libDir appPkg libPkg libName p doWatch (w, evs)
            = (case ensure_app_link sys False appDir libDir libName p (isSymlinkTo sys w p libDir)
                      (existsSync sys w p \<and> \<not> isSymlinkTo sys w p libDir)
                      (w1, evs @ [Log (Status None
                                    (if isSymlinkTo sys w p libDir then AppLinked
                                     else if existsSync sys w p \<and> \<not> isSymlinkTo sys w p libDir
                                     then AppInstalled else AppAbsent)),
                                  Log CreatingGlobal, Run [''link''] (Some libDir) False,
                                  Warn GlobalLinkError]) of
                 (Some f, s3) \<Rightarrow> (Some f, s3)
               | (None, s3) \<Rightarrow> (None, warn_and_watch sys appPkg libPkg libDir doWatch s3)))
   \<and> (fst (link_flow_part000 sys appDir libDir appPkg libPkg libName p doWatch (w, evs)) = None
       \<or> fst (link_flow_part000 sys appDir libDir appPkg libPkg libName p doWatch (w, evs))
           = Some (CommandFailed [''link'', libName]))
   \<and> (\<forall>w1. \<not> isSymlinkTo sys w gp libDir
         \<and> spawnSync sys [''link''] (Some libDir) w = (False, w1)
      \<longrightarrow> link_flow_index sys appDir libDir appPkg libPkg libName p gp doWatch (w, evs)
            = (Some (CommandFailed [''link'']),
               (w1, evs @ [Log (Status
                             (Some (if existsSync sys w gp then GlobalElsewhere else GlobalAbsent))
                             (if isSymlinkTo sys w p libDir then AppLinked
                              else if existsSync sys w p \<and> \<not> isSymlinkTo sys w p libDir
                              then AppInstalled else AppAbsent)),
                           Log CreatingGlobal, Run [''link''] (Some libDir) False]))
          \<and> exit_code (conclude
               (link_flow_index sys appDir libDir appPkg libPkg libName p gp doWatch (w, evs))) = 1)
   \<and> (isSymlinkTo sys w gp libDir
      \<longrightarrow> ensure_global_index sys libDir (isSymlinkTo sys w gp libDir) (w, evs)
            = (None, (w, evs @ [Log GlobalAlreadySet])))"
proof (intro conjI allI impI)
  fix w1
  assume a: "spawnSync sys [''link''] (Some libDir) w = (False, w1)"
  show "ensure_global_part000 sys libDir (w, evs)
            = (w1, evs @ [Log CreatingGlobal, Run [''link''] (Some libDir) False,
                          Warn GlobalLinkError])"
    using a by (rule ensure_global_part000_failed)
  show "link_flow_part000 sys appDir libDir appPkg libPkg libName p doWatch (w, evs)
            = (case ensure_app_link sys False appDir libDir libName p (isSymlinkTo sys w p libDir)
                      (existsSync sys w p \<and> \<not> isSymlinkTo sys w p libDir)
                      (w1, evs @ [Log (Status None
                                    (if isSymlinkTo sys w p libDir then AppLinked
                                     else if existsSync sys w p \<and> \<not> isSymlinkTo sys w p libDir
                                     then AppInstalled else AppAbsent)),
                                  Log CreatingGlobal, Run [''link''] (Some libDir) False,
                                  Warn GlobalLinkError]) of
                 (Some f, s3) \<Rightarrow> (Some f, s3)
               | (None, s3) \<Rightarrow> (None, warn_and_watch sys appPkg libPkg libDir doWatch s3))"
    using a by (rule link_flow_part000_continues)
next
  show "fst (link_flow_part000 sys appDir libDir appPkg libPkg libName p doWatch (w, evs)) = None
       \<or> fst (link_flow_part000 sys appDir libDir appPkg libPkg libName p doWatch (w, evs))
           = Some (CommandFailed [''link'', libName])"
    by (rule link_flow_part000_result)
next
  fix w1
  assume a: "\<not> isSymlinkTo sys w gp libDir
         \<and> spawnSync sys [''link''] (Some libDir) w = (False, w1)"
  then show f: "link_flow_index sys appDir libDir appPkg libPkg libName p gp doWatch (w, evs)
            = (Some (CommandFailed [''link'']),
               (w1, evs @ [Log (Status
                             (Some (if existsSync sys w gp then GlobalElsewhere else GlobalAbsent))
                             (if isSymlinkTo sys w p libDir then AppLinked
                              else if existsSync sys w p \<and> \<not> isSymlinkTo sys w p libDir
                              then AppInstalled else AppAbsent)),
                           Log CreatingGlobal, Run [''link''] (Some libDir) False]))"
    using link_flow_index_global_failed [of sys w gp libDir w1] by blast
  show "exit_code (conclude
               (link_flow_index sys appDir libDir appPkg libPkg libName p gp doWatch (w, evs))) = 1"
    unfolding f by (simp add: conclude_def)
next
  assume "isSymlinkTo sys w gp libDir"
  then show "ensure_global_index sys libDir (isSymlinkTo sys w gp libDir) (w, evs)
            = (None, (w, evs @ [Log GlobalAlreadySet]))"
    by (simp add: ensure_global_index_skipped)
qed

lemma fake_global_failure:
  "spawnSync fake_sys [''link''] (Some ''/work/lib'') (fake_state fresh_nodes [False])
     = (False, fake_state fresh_nodes [])"
  "isSymlinkTo fake_sys (fake_state fresh_nodes [False]) ''/usr/local/node_modules/widgets''
     ''/work/lib'' = False"
  "isSymlinkTo fake_sys (fake_state fresh_nodes [False]) ''/work/app/node_modules/widgets''
     ''/work/lib'' = False"
  "existsSync fake_sys (fake_state fresh_nodes [False]) ''/usr/local/node_modules/widgets'' = False"
  "existsSync fake_sys (fake_state fresh_nodes [False]) ''/work/app/node_modules/widgets'' = False"
  "isSymlinkTo fake_sys (fake_state linked_nodes []) ''/usr/local/node_modules/widgets''
     ''/work/lib'' = True"
  by code_simp+

lemma fake_part000_continues:
  "main_part000 fake_sys [''/work/app'', ''../lib''] (fake_state fresh_nodes [False])
     = \<lparr>exit_code = 0,
        events =
          [Log (Status None AppAbsent), Log CreatingGlobal,
           Run [''link''] (Some ''/work/lib'') False, Warn GlobalLinkError, Log LinkingApp,
           Run [''link'', ''widgets''] (Some ''/work/app'') True, Warn VerificationFailed,
           Warn (Peers (VersionMismatch [''left-pad (app has ^2.0.0, lib expects ^1.0.0)'']))],
        world =
          fake_state ((''/work/app/node_modules/widgets'', Link ''/usr/local/node_modules/widgets'')
                       # fresh_nodes) []\<rparr>"
  by code_simp

theorem global_link_failure_witness:
  "spawnSync fake_sys [''link''] (Some ''/work/lib'') (fake_state fresh_nodes [False])
     = (False, fake_state fresh_nodes [])
   \<and> ensure_global_part000 fake_sys ''/work/lib'' (fake_state fresh_nodes [False], [])
     = (fake_state fresh_nodes [],
        [Log CreatingGlobal, Run [''link''] (Some ''/work/lib'') False, Warn GlobalLinkError])
   \<and> exit_code (main_part000 fake_sys [''/work/app'', ''../lib''] (fake_state fresh_nodes [False]))
     = 0
   \<and> \<not> isSymlinkTo fake_sys (fake_state fresh_nodes [False]) ''/usr/local/node_modules/widgets''
         ''/work/lib''
   \<and> link_flow_index fake_sys ''/work/app'' ''/work/lib'' app_manifest widgets_manifest ''widgets''
        ''/work/app/node_modules/widgets'' ''/usr/local/node_modules/widgets'' False
        (fake_state fresh_nodes [False], [])
     = (Some (CommandFailed [''link'']),
        (fake_state fresh_nodes [],
         [Log (Status (Some GlobalAbsent) AppAbsent), Log CreatingGlobal,
          Run [''link''] (Some ''/work/lib'') False]))
   \<and> isSymlinkTo fake_sys (fake_state linked_nodes []) ''/usr/local/node_modules/widgets''
         ''/work/lib''
   \<and> ensure_global_index fake_sys ''/work/lib''
        (isSymlinkTo fake_sys (fake_state linked_nodes []) ''/usr/local/node_modules/widgets''
           ''/work/lib'') (fake_state linked_nodes [], [])
     = (None, (fake_state linked_nodes [], [Log GlobalAlreadySet]))"
  using
    global_link_failure [of fake_sys "''/work/lib''" "fake_state fresh_nodes [False]" "[]"
      "''/work/app''" app_manifest widgets_manifest "''widgets''"
      "''/work/app/node_modules/widgets''" False "''/usr/local/node_modules/widgets''"]
    global_link_failure [of fake_sys "''/work/lib''" "fake_state linked_nodes []" "[]"
      "''/work/app''" app_manifest widgets_manifest "''widgets''"
      "''/work/app/node_modules/widgets''" False "''/usr/local/node_modules/widgets''"]
  by (simp add: fake_global_failure fake_part000_continues)

text \<open>
  Without the amendment the statement fails on \<^verbatim>\<open>src/index.js\<close>: in a fresh application, with a package
  manager whose first command fails, the run stops with exit code 1 right after the
  command that creates the global link, and the application is never linked.
\<close>

theorem global_link_failure_counterexample:
  "main_index fake_sys [''../lib''] (fake_state fresh_nodes [False])
     = \<lparr>exit_code = 1,
        events =
          [Log (Status (Some GlobalAbsent) AppAbsent), Log CreatingGlobal,
           Run [''link''] (Some ''/work/lib'') False, Error (CommandFailed [''link''])],
        world = fake_state fresh_nodes []\<rparr>"
  by code_simp
section \<open>Running the link flow again\<close>































section \<open>Removing the global link\<close>












text \<open>
  The directory that \<^verbatim>\<open>src/index.js\<close> takes for the global root is the prefix followed
  by \<^verbatim>\<open>node_modules\<close>. Where the package manager keeps its global links under
  \<^verbatim>\<open>lib/node_modules\<close> of the prefix, the global link is not at the path the script
  inspects: after a first run that made both links, the second run reports the global
  slot as absent and runs the link command in the library again; and a run with
  \<^verbatim>\<open>--unlink-global\<close> whose global unlink fails removes nothing itself and leaves the
  global link in place.
\<close>

lemma posix_global_root_missed:
  "world (main_index fake_sys [''../lib''] (posix_state fresh_nodes []))
     = posix_state posix_linked_nodes []
   \<and> npmRootGlobal fake_sys (posix_state posix_linked_nodes []) = Some ''/usr/local/node_modules''
   \<and> isSymlinkTo fake_sys (posix_state posix_linked_nodes [])
        ''/usr/local/lib/node_modules/widgets'' ''/work/lib''
   \<and> events (main_index fake_sys [''../lib''] (posix_state posix_linked_nodes []))
      = [Log (Status (Some GlobalAbsent) AppLinked), Log CreatingGlobal,
         Run [''link''] (Some ''/work/lib'') True, Log GlobalReady, Log AppAlreadyLinked,
         Warn (Peers (VersionMismatch [''left-pad (app has ^2.0.0, lib expects ^1.0.0)'']))]
   \<and> main_index fake_sys [''../lib'', ''--unlink'', ''--unlink-global'']
        (posix_state posix_linked_nodes [True, True, False])
      = \<lparr>exit_code = 0,
         events =
           [Log Unlinking, Run [''unlink'', ''widgets''] (Some ''/work/app'') True,
            Log Reinstalling,
            Run [''install'', ''--save-dev'', ''widgets@0.5.0-nightly.5'', ''--save-exact'']
              (Some ''/work/app'') True,
            Log Restored, Log RemovingGlobal,
            Run [''unlink'', ''-g'', ''widgets''] (Some ''/work/app'') False,
            Warn GlobalUnlinkFailed, Log GlobalRemoved],
         world =
           posix_state ((''/work/app/node_modules/widgets'', Dir)
             # (''/usr/local/lib/node_modules/widgets'', Link ''/work/lib'') # fresh_nodes) []\<rparr>
   \<and> existsSync fake_sys
        (posix_state ((''/work/app/node_modules/widgets'', Dir)
           # (''/usr/local/lib/node_modules/widgets'', Link ''/work/lib'') # fresh_nodes) [])
        ''/usr/local/lib/node_modules/widgets''"
  by code_simp


end
